theory Spec2Isabelle
  imports Complex_Main "HOL-Library.Word"
begin

section \<open>Python values of the autoencoder notebook\<close>

text \<open>
  The exceptions the notebook code can raise. Every raise is a branch of the model:
  a fallible operation returns \<open>error + 'a\<close> with \<open>Inl\<close> for the exception.
\<close>

datatype error = KeyError | IndexError | ValueError | NameError string

text \<open>
  A Python \<open>dict\<close> is an association list in insertion order with one entry per key.
  Storing under a key that is present replaces the value in place; a new key goes to
  the end. Insertion order is what CPython guarantees since 3.7; under the 3.5 kernel
  recorded in the notebooks the iteration order of a dictionary is unspecified, which
  only changes the order among words of equal frequency.
\<close>

type_synonym ('k, 'v) dict = "('k \<times> 'v) list"

fun dict_setitem :: "('k, 'v) dict \<Rightarrow> 'k \<Rightarrow> 'v \<Rightarrow> ('k, 'v) dict" where
  "dict_setitem [] k v = [(k, v)]"
| "dict_setitem ((k', v') # d) k v =
     (if k' = k then (k', v) # d else (k', v') # dict_setitem d k v)"

definition dict_contains :: "('k, 'v) dict \<Rightarrow> 'k \<Rightarrow> bool" where
  "dict_contains d k = (map_of d k \<noteq> None)"

definition dict_getitem :: "('k, 'v) dict \<Rightarrow> 'k \<Rightarrow> error + 'v" where
  "dict_getitem d k = (case map_of d k of None \<Rightarrow> Inl KeyError | Some v \<Rightarrow> Inr v)"

definition dict_get :: "('k, 'v) dict \<Rightarrow> 'k \<Rightarrow> 'v \<Rightarrow> 'v" where
  "dict_get d k dflt = (case map_of d k of None \<Rightarrow> dflt | Some v \<Rightarrow> v)"

definition dict_of_pairs :: "('k \<times> 'v) list \<Rightarrow> ('k, 'v) dict" where
  "dict_of_pairs ps = foldl (\<lambda>d (k, v). dict_setitem d k v) [] ps"

text \<open>
  \<open>collections.Counter(words)\<close> counts each element as it arrives:
  \<open>self[elem] = self.get(elem, 0) + 1\<close>. \<open>most_common(n)\<close> is
  \<open>heapq.nlargest(n, self.items(), key=itemgetter(1))\<close>, that is the first \<open>n\<close>
  items of the stable sort by decreasing count, and the empty list for \<open>n \<le> 0\<close>.
\<close>

definition Counter :: "'k list \<Rightarrow> ('k, int) dict" where
  "Counter ws = foldl (\<lambda>c w. dict_setitem c w (dict_get c w 0 + 1)) [] ws"

definition most_common :: "('k, int) dict \<Rightarrow> int \<Rightarrow> ('k \<times> int) list" where
  "most_common c n = (if n \<le> 0 then [] else take (nat n) (sort_key (\<lambda>p. - snd p) c))"

text \<open>A list comprehension evaluates its elements in order; the first exception ends it.\<close>

fun comprehension :: "('a \<Rightarrow> error + 'b) \<Rightarrow> 'a list \<Rightarrow> error + 'b list" where
  "comprehension f [] = Inr []"
| "comprehension f (x # xs) =
     (case f x of
        Inl e \<Rightarrow> Inl e
      | Inr y \<Rightarrow> (case comprehension f xs of Inl e \<Rightarrow> Inl e | Inr ys \<Rightarrow> Inr (y # ys)))"

section \<open>The vocabulary: \<open>build_vocab\<close> and \<open>index_words_in_corpus\<close>\<close>

text \<open>
  \<^verbatim>\<open>
  def build_vocab(words, vocab_size):
      dictionary = dict()
      count = [('UNK', -1)]
      count.extend(Counter(words).most_common(vocab_size - 1))
      index = 0
      for word, _ in count:
          dictionary[word] = index
          index += 1
      index_dictionary = dict(zip(dictionary.values(), dictionary.keys()))
      return dictionary, index_dictionary
  \<close>
  The \<open>for\<close> loop is \<open>assign_indices\<close>, on the pair of the dictionary and the index.
\<close>

fun assign_indices ::
  "(string \<times> int) list \<Rightarrow> (string, int) dict \<times> int \<Rightarrow> (string, int) dict \<times> int" where
  "assign_indices [] (dictionary, index) = (dictionary, index)"
| "assign_indices ((word, _) # count) (dictionary, index) =
     assign_indices count (dict_setitem dictionary word index, index + 1)"

definition build_vocab :: "string list \<Rightarrow> int \<Rightarrow> (string, int) dict \<times> (int, string) dict" where
  "build_vocab words vocab_size =
     (let count = [(''UNK'', - 1)] @ most_common (Counter words) (vocab_size - 1);
          (dictionary, index) = assign_indices count ([], 0);
          index_dictionary = dict_of_pairs (zip (map snd dictionary) (map fst dictionary))
      in (dictionary, index_dictionary))"

text \<open>
  \<^verbatim>\<open>
  def index_words_in_corpus(corpus):
      return [vocabulary[token] if token in vocabulary else 0 for token in corpus]
  \<close>
  The global \<open>vocabulary\<close> is the first argument of the model.
\<close>

definition index_words_in_corpus :: "(string, int) dict \<Rightarrow> string list \<Rightarrow> error + int list" where
  "index_words_in_corpus vocabulary corpus =
     comprehension
       (\<lambda>token. if dict_contains vocabulary token then dict_getitem vocabulary token else Inr 0)
       corpus"

text \<open>The list \<open>count\<close> of \<open>build_vocab\<close>, its keys and the indices they receive.\<close>

definition vocab_keys :: "string list \<Rightarrow> int \<Rightarrow> string list" where
  "vocab_keys words vocab_size = ''UNK'' # map fst (most_common (Counter words) (vocab_size - 1))"

definition indices :: "nat \<Rightarrow> int list" where
  "indices n = map int [0..<n]"

section \<open>One-hot rows and the training array\<close>

text \<open>
  \<^verbatim>\<open>
  def one_hot_encode(index):
      row = np.zeros(vocabulary_size, dtype=np.int32)
      row[index] = 1
      return row
  \<close>
  The entries are \<open>int32\<close>. Storing at an index of a one-dimensional array accepts
  \<open>-n \<le> index < n\<close>, a negative index counting from the end, and raises
  \<open>IndexError\<close> otherwise. The global \<open>vocabulary_size\<close> is the first argument.
\<close>

definition np_zeros :: "nat \<Rightarrow> 32 word list" where
  "np_zeros n = replicate n 0"

definition np_setitem :: "'a list \<Rightarrow> int \<Rightarrow> 'a \<Rightarrow> error + 'a list" where
  "np_setitem row index v =
     (if 0 \<le> index \<and> index < int (length row) then Inr (row[nat index := v])
      else if - int (length row) \<le> index \<and> index < 0
        then Inr (row[nat (int (length row) + index) := v])
      else Inl IndexError)"

definition one_hot_encode :: "nat \<Rightarrow> int \<Rightarrow> error + 32 word list" where
  "one_hot_encode vocabulary_size index = np_setitem (np_zeros vocabulary_size) index 1"

text \<open>
  The cells from the corpus to the training array:
  \<^verbatim>\<open>
  vocabulary, reverse_vocabulary = build_vocab(corpus, 100)
  corpus = index_words_in_corpus(corpus)
  vocabulary_size = len(vocabulary)
  data = np.array([one_hot_encode(i) for i in corpus])
  \<close>
  as a function of the word list and of the size given to \<open>build_vocab\<close>.
\<close>

definition training_array :: "string list \<Rightarrow> int \<Rightarrow> error + 32 word list list" where
  "training_array words vocab_size =
     (let (vocabulary, reverse_vocabulary) = build_vocab words vocab_size
      in case index_words_in_corpus vocabulary words of
           Inl e \<Rightarrow> Inl e
         | Inr corpus \<Rightarrow>
             (let vocabulary_size = length vocabulary
              in comprehension (one_hot_encode vocabulary_size) corpus))"

text \<open>
  \<open>str.split()\<close> with no argument cuts at runs of whitespace and drops empty pieces;
  the corpus text holds letters and single spaces only. \<open>split_words cur s\<close> scans
  \<open>s\<close> with the word read so far in \<open>cur\<close>.
\<close>

fun split_words :: "string \<Rightarrow> string \<Rightarrow> string list" where
  "split_words cur [] = (if cur = [] then [] else [cur])"
| "split_words cur (c # s) =
     (if c = CHR '' '' then (if cur = [] then split_words [] s else cur # split_words [] s)
      else split_words (cur @ [c]) s)"

definition str_split :: "string \<Rightarrow> string list" where
  "str_split s = split_words [] s"

text \<open>
  The notebook's globals \<open>corpus\<close> (as first bound, to the list of words) and
  \<open>data\<close> are \<open>nb_corpus\<close> and \<open>nb_data\<close>.
\<close>

definition nb_corpus :: "string list" where
  "nb_corpus = str_split ''the quick brown fox jumped over the lazy dog from the quick tall fox''"

definition nb_data :: "error + 32 word list list" where
  "nb_data = training_array nb_corpus 100"

text \<open>
  The cell \<open>data[randint(1, data.shape[0])]\<close>. \<open>random.randint(a, b)\<close> draws any
  integer \<open>a \<le> r \<le> b\<close>, both ends included, and raises \<open>ValueError\<close> on an empty
  range; \<open>randint_draws\<close> lists the possible draws. Indexing the rows of an array
  follows the same rule as storing: \<open>-n \<le> index < n\<close> or \<open>IndexError\<close>.
\<close>

definition randint_draws :: "int \<Rightarrow> int \<Rightarrow> error + int list" where
  "randint_draws a b = (if b < a then Inl ValueError else Inr [a..b])"

definition np_getitem :: "'a list \<Rightarrow> int \<Rightarrow> error + 'a" where
  "np_getitem rows index =
     (if 0 \<le> index \<and> index < int (length rows) then Inr (rows ! nat index)
      else if - int (length rows) \<le> index \<and> index < 0
        then Inr (rows ! nat (int (length rows) + index))
      else Inl IndexError)"

definition sample_row :: "'a list \<Rightarrow> int \<Rightarrow> error + 'a" where
  "sample_row rows r = np_getitem rows r"

definition sample_outcomes :: "'a list \<Rightarrow> error + (error + 'a) list" where
  "sample_outcomes rows =
     (case randint_draws 1 (int (length rows)) of
        Inl e \<Rightarrow> Inl e
      | Inr draws \<Rightarrow> Inr (map (sample_row rows) draws))"

section \<open>The computation graph of the autoencoder\<close>

text \<open>
  The TensorFlow calls of the notebook build a graph; each Python name is bound to a
  node. A node is a term of \<open>tensor\<close>: the two placeholders carry the names
  TensorFlow gives them, a variable carries its initial value and its \<open>name\<close>
  argument. The decimal literal \<open>0.01\<close> is the rational \<open>1/100\<close>. The notebook's
  \<open>w\<close> and \<open>b\<close> are \<open>w_code\<close> and \<open>b_code\<close>; every node that depends on
  \<open>vocabulary_size\<close> takes it as its argument.
\<close>

datatype dtype = Float32

datatype initial_value = Random_normal "nat list" rat | Zeros "nat list"

datatype tensor =
    Placeholder dtype "nat option list" string
  | Variable initial_value string
  | Matmul tensor tensor
  | Add tensor tensor
  | Subtract tensor tensor
  | Relu tensor
  | Sigmoid tensor
  | Tf_pow tensor nat
  | Reduce_mean tensor

definition X :: "nat \<Rightarrow> tensor" where
  "X vocabulary_size = Placeholder Float32 [None, Some vocabulary_size] ''Placeholder''"

definition Y :: "nat \<Rightarrow> tensor" where
  "Y vocabulary_size = Placeholder Float32 [None, Some vocabulary_size] ''Placeholder_1''"

definition w1 :: "nat \<Rightarrow> tensor" where
  "w1 vocabulary_size = Variable (Random_normal [vocabulary_size, 1000] (1 / 100)) ''weights1''"

definition b1 :: tensor where
  "b1 = Variable (Zeros [1, 1000]) ''bias1''"

definition layer1 :: "nat \<Rightarrow> tensor" where
  "layer1 vocabulary_size = Relu (Add (Matmul (X vocabulary_size) (w1 vocabulary_size)) b1)"

definition w2 :: tensor where
  "w2 = Variable (Random_normal [1000, 250] (1 / 100)) ''weights2''"

definition b2 :: tensor where
  "b2 = Variable (Zeros [1, 250]) ''bias2''"

definition layer2 :: "nat \<Rightarrow> tensor" where
  "layer2 vocabulary_size = Relu (Add (Matmul (layer1 vocabulary_size) w2) b2)"

definition w_code :: tensor where
  "w_code = Variable (Random_normal [250, 50] (1 / 100)) ''weights''"

definition b_code :: tensor where
  "b_code = Variable (Zeros [1, 50]) ''bias''"

definition code :: "nat \<Rightarrow> tensor" where
  "code vocabulary_size = Relu (Add (Matmul (layer2 vocabulary_size) w_code) b_code)"

definition w3 :: tensor where
  "w3 = Variable (Random_normal [50, 250] (1 / 100)) ''weights3''"

definition b3 :: tensor where
  "b3 = Variable (Zeros [1, 250]) ''bias3''"

definition layer3 :: "nat \<Rightarrow> tensor" where
  "layer3 vocabulary_size = Relu (Add (Matmul (code vocabulary_size) w3) b3)"

definition w4 :: tensor where
  "w4 = Variable (Random_normal [250, 1000] (1 / 100)) ''weights4''"

definition b4 :: tensor where
  "b4 = Variable (Zeros [1, 1000]) ''bias4''"

definition layer4 :: "nat \<Rightarrow> tensor" where
  "layer4 vocabulary_size = Relu (Add (Matmul (layer3 vocabulary_size) w4) b4)"

definition w5 :: "nat \<Rightarrow> tensor" where
  "w5 vocabulary_size = Variable (Random_normal [1000, vocabulary_size] (1 / 100)) ''weights5''"

definition b5 :: "nat \<Rightarrow> tensor" where
  "b5 vocabulary_size = Variable (Zeros [1, vocabulary_size]) ''bias5''"

definition decoder :: "nat \<Rightarrow> tensor" where
  "decoder vocabulary_size =
     Sigmoid (Add (Matmul (layer4 vocabulary_size) (w5 vocabulary_size)) (b5 vocabulary_size))"

definition loss :: "nat \<Rightarrow> tensor" where
  "loss vocabulary_size = Reduce_mean (Tf_pow (Subtract (X vocabulary_size) (decoder vocabulary_size)) 2)"

text \<open>
  A layer is an activation applied to \<open>tf.add(tf.matmul(input, weights), bias)\<close>.
  \<open>dense_layers\<close> counts the layers on the path from a node back to its input,
  \<open>path_weights\<close> lists their weight nodes from the input on, and \<open>matmuls\<close> counts
  every \<open>tf.matmul\<close> node of a term.
\<close>

fun dense_layers :: "tensor \<Rightarrow> nat" where
  "dense_layers (Relu (Add (Matmul x w) b)) = Suc (dense_layers x)"
| "dense_layers (Sigmoid (Add (Matmul x w) b)) = Suc (dense_layers x)"
| "dense_layers _ = 0"

fun path_weights :: "tensor \<Rightarrow> tensor list" where
  "path_weights (Relu (Add (Matmul x w) b)) = path_weights x @ [w]"
| "path_weights (Sigmoid (Add (Matmul x w) b)) = path_weights x @ [w]"
| "path_weights _ = []"

text \<open>
  \<open>layer_list\<close> lists the layers on the path from the input on, each with its
  activation, its weight node and its bias node; \<open>path_input\<close> is the node the
  path starts from.
\<close>

fun layer_list :: "tensor \<Rightarrow> (string \<times> tensor \<times> tensor) list" where
  "layer_list (Relu (Add (Matmul x w) b)) = layer_list x @ [(''relu'', w, b)]"
| "layer_list (Sigmoid (Add (Matmul x w) b)) = layer_list x @ [(''sigmoid'', w, b)]"
| "layer_list _ = []"

fun path_input :: "tensor \<Rightarrow> tensor" where
  "path_input (Relu (Add (Matmul x w) b)) = path_input x"
| "path_input (Sigmoid (Add (Matmul x w) b)) = path_input x"
| "path_input t = t"

fun matmuls :: "tensor \<Rightarrow> nat" where
  "matmuls (Placeholder d s n) = 0"
| "matmuls (Variable i n) = 0"
| "matmuls (Matmul x y) = Suc (matmuls x + matmuls y)"
| "matmuls (Add x y) = matmuls x + matmuls y"
| "matmuls (Subtract x y) = matmuls x + matmuls y"
| "matmuls (Relu x) = matmuls x"
| "matmuls (Sigmoid x) = matmuls x"
| "matmuls (Tf_pow x k) = matmuls x"
| "matmuls (Reduce_mean x) = matmuls x"

section \<open>Running a node of the graph\<close>

text \<open>
  \<open>sess.run(t, feed_dict)\<close> computes the value of node \<open>t\<close>. The values are
  scalars and matrices of reals: the \<open>float32\<close> arithmetic of TensorFlow is
  idealised, rounding is outside this model. The environment \<open>env\<close> gives the value
  of every node that has one before the run: a fed node (\<open>feed_dict\<close> accepts any
  node of the graph, not only a placeholder) and a variable with its current value.
  A placeholder that is not fed and a variable without a value make the run fail
  (\<open>None\<close>), as do operands whose shapes do not fit.
\<close>

datatype tval = Scalar real | Matrix "real list list"

definition shape :: "real list list \<Rightarrow> nat \<times> nat" where
  "shape m = (length m, case m of [] \<Rightarrow> 0 | r # _ \<Rightarrow> length r)"

definition is_matrix :: "real list list \<Rightarrow> bool" where
  "is_matrix m = list_all (\<lambda>r. length r = snd (shape m)) m"

text \<open>
  Element-wise operations broadcast: along each axis the two lengths are equal or one
  of them is 1, and the operand of length 1 is repeated.
\<close>

definition stretch :: "nat \<Rightarrow> 'a list \<Rightarrow> 'a list" where
  "stretch n xs = (if length xs = 1 then replicate n (hd xs) else xs)"

definition broadcast_length :: "nat \<Rightarrow> nat \<Rightarrow> nat option" where
  "broadcast_length m n =
     (if m = n then Some m else if m = 1 then Some n else if n = 1 then Some m else None)"

definition elementwise :: "(real \<Rightarrow> real \<Rightarrow> real) \<Rightarrow> tval \<Rightarrow> tval \<Rightarrow> tval option" where
  "elementwise f u v =
     (case (u, v) of
        (Scalar a, Scalar b) \<Rightarrow> Some (Scalar (f a b))
      | (Scalar a, Matrix y) \<Rightarrow> Some (Matrix (map (map (f a)) y))
      | (Matrix x, Scalar b) \<Rightarrow> Some (Matrix (map (map (\<lambda>a. f a b)) x))
      | (Matrix x, Matrix y) \<Rightarrow>
          (if is_matrix x \<and> is_matrix y then
             (case (broadcast_length (fst (shape x)) (fst (shape y)),
                    broadcast_length (snd (shape x)) (snd (shape y))) of
                (Some m, Some n) \<Rightarrow>
                  Some (Matrix (map2 (map2 f) (map (stretch n) (stretch m x))
                                              (map (stretch n) (stretch m y))))
              | _ \<Rightarrow> None)
           else None))"

definition unary :: "(real \<Rightarrow> real) \<Rightarrow> tval \<Rightarrow> tval" where
  "unary f u = (case u of Scalar a \<Rightarrow> Scalar (f a) | Matrix x \<Rightarrow> Matrix (map (map f) x))"

definition matmul :: "tval \<Rightarrow> tval \<Rightarrow> tval option" where
  "matmul u v =
     (case (u, v) of
        (Matrix x, Matrix y) \<Rightarrow>
          (if is_matrix x \<and> is_matrix y \<and> snd (shape x) = fst (shape y)
           then Some (Matrix (map (\<lambda>r. map (\<lambda>c. sum_list (map2 (*) r c)) (transpose y)) x))
           else None)
      | _ \<Rightarrow> None)"

definition reduce_mean :: "tval \<Rightarrow> tval option" where
  "reduce_mean u =
     (case u of
        Scalar a \<Rightarrow> Some (Scalar a)
      | Matrix x \<Rightarrow>
          (if concat x = [] then None
           else Some (Scalar (sum_list (concat x) / real (length (concat x))))))"

definition relu :: "real \<Rightarrow> real" where
  "relu a = max 0 a"

definition sigmoid :: "real \<Rightarrow> real" where
  "sigmoid a = 1 / (1 + exp (- a))"

definition fetch :: "(tensor \<Rightarrow> tval option) \<Rightarrow> tensor \<Rightarrow> tval option \<Rightarrow> tval option" where
  "fetch env t computed = (case env t of Some v \<Rightarrow> Some v | None \<Rightarrow> computed)"

fun run :: "(tensor \<Rightarrow> tval option) \<Rightarrow> tensor \<Rightarrow> tval option" where
  "run env (Placeholder d s n) = env (Placeholder d s n)"
| "run env (Variable i n) = env (Variable i n)"
| "run env (Matmul x y) =
     fetch env (Matmul x y)
       (case (run env x, run env y) of (Some u, Some v) \<Rightarrow> matmul u v | _ \<Rightarrow> None)"
| "run env (Add x y) =
     fetch env (Add x y)
       (case (run env x, run env y) of (Some u, Some v) \<Rightarrow> elementwise (+) u v | _ \<Rightarrow> None)"
| "run env (Subtract x y) =
     fetch env (Subtract x y)
       (case (run env x, run env y) of (Some u, Some v) \<Rightarrow> elementwise (-) u v | _ \<Rightarrow> None)"
| "run env (Relu x) =
     fetch env (Relu x) (case run env x of Some u \<Rightarrow> Some (unary relu u) | None \<Rightarrow> None)"
| "run env (Sigmoid x) =
     fetch env (Sigmoid x) (case run env x of Some u \<Rightarrow> Some (unary sigmoid u) | None \<Rightarrow> None)"
| "run env (Tf_pow x k) =
     fetch env (Tf_pow x k) (case run env x of Some u \<Rightarrow> Some (unary (\<lambda>a. a ^ k) u) | None \<Rightarrow> None)"
| "run env (Reduce_mean x) =
     fetch env (Reduce_mean x) (case run env x of Some u \<Rightarrow> reduce_mean u | None \<Rightarrow> None)"

text \<open>
  The claim's words for the objective, written out: the mean, over all entries, of the
  squared difference between the entries of the input and of the reconstruction.
\<close>

definition mean_squared_difference :: "real list list \<Rightarrow> real list list \<Rightarrow> real" where
  "mean_squared_difference x d =
     sum_list (map2 (\<lambda>a b. (a - b)\<^sup>2) (concat x) (concat d)) / real (length (concat x))"

text \<open>
  Feeding the \<open>int32\<close> array \<open>data\<close> to the \<open>float32\<close> placeholder converts each
  entry to the float of the same value.
\<close>

definition as_float32 :: "32 word list list \<Rightarrow> real list list" where
  "as_float32 rows = map (map (\<lambda>e. real_of_int (sint e))) rows"

section \<open>The training session of the autoencoder\<close>

text \<open>
  \<^verbatim>\<open>
  optimizer = tf.train.RMSPropOptimizer(learning_rate=LEARNING_RATE).minimize(loss)
  init = tf.global_variables_initializer()

  LEARNING_RATE = 0.01
  NUM_TRAIN_STEPS = 1000
  SKIP_STEP = 10 # how many steps to skip before reporting the loss
  \<close>
  These are two cells, in this order: the first reads \<open>LEARNING_RATE\<close>, the second
  assigns it. The definitions below give each name the value it has once both cells
  have run; what the order of the two cells does to a run from top to bottom is the
  subject of the section on running the cells.
\<close>

definition LEARNING_RATE :: rat where
  "LEARNING_RATE = 1 / 100"

definition NUM_TRAIN_STEPS :: int where
  "NUM_TRAIN_STEPS = 1000"

definition SKIP_STEP :: int where
  "SKIP_STEP = 10"

datatype tf_optimizer = RMSPropOptimizer rat

datatype operation = Minimize tf_optimizer tensor | Global_variables_initializer

definition optimizer :: "nat \<Rightarrow> operation" where
  "optimizer vocabulary_size = Minimize (RMSPropOptimizer LEARNING_RATE) (loss vocabulary_size)"

definition init :: operation where
  "init = Global_variables_initializer"

text \<open>
  What a session does with the graph is TensorFlow's: the model takes it as a
  parameter. \<open>'v\<close> is the state of the variables, \<open>'l\<close> the value fetched for
  \<open>loss\<close>, \<open>'m\<close> the value fetched for a matrix node. \<open>run_init\<close> is
  \<open>sess.run(init)\<close> on a new session, \<open>run_train\<close> is
  \<open>sess.run([optimizer, loss], feed_dict)\<close>, which updates the variables and returns
  the loss, and \<open>run_fetch\<close> is \<open>sess.run(decoder, feed_dict)\<close>.
\<close>

type_synonym feed_dict = "(tensor \<times> 32 word list list) list"

record ('v, 'l, 'm) session =
  run_init :: "operation \<Rightarrow> 'v"
  run_train :: "operation \<Rightarrow> tensor \<Rightarrow> feed_dict \<Rightarrow> 'v \<Rightarrow> 'v \<times> 'l"
  run_fetch :: "tensor \<Rightarrow> feed_dict \<Rightarrow> 'v \<Rightarrow> 'm"

text \<open>
  The world outside the kernel: the lines printed so far and the paths that exist in
  the file system. \<open>print\<close> appends a line and touches nothing else.
\<close>

record 'e world =
  stdout :: "'e list"
  files :: "string set"

definition print :: "'e \<Rightarrow> 'e world \<Rightarrow> 'e world" where
  "print line w = w\<lparr>stdout := stdout w @ [line]\<rparr>"

text \<open>
  \<open>range(n)\<close> for an integer \<open>n\<close>: the integers from 0 up to \<open>n - 1\<close>, none when
  \<open>n \<le> 0\<close>.
\<close>

definition py_range :: "int \<Rightarrow> int list" where
  "py_range n = map int [0..<nat n]"

text \<open>
  \<^verbatim>\<open>
  with tf.Session() as sess:
      sess.run(init)
      for i in range(NUM_TRAIN_STEPS):
          _, loss_val = sess.run([optimizer, loss], feed_dict={X: data})
          if i % SKIP_STEP == 0:
                  print("EPOCH {}/{}, LOSS {}".format(i , NUM_TRAIN_STEPS, loss_val))
      test_data_compressed = sess.run(decoder, feed_dict={X: test_data})
  #     np.save(outfile, test_data_compressed)
  \<close>
  The printed line keeps the three values it formats. The body of the loop is
  \<open>train_step\<close>, on the state of the variables and the world; the commented line
  does nothing.
\<close>

datatype 'l epoch_line = Epoch_line int int 'l

definition train_step ::
  "('v, 'l, 'm) session \<Rightarrow> nat \<Rightarrow> 32 word list list \<Rightarrow>
   'v \<times> 'l epoch_line world \<Rightarrow> int \<Rightarrow> 'v \<times> 'l epoch_line world" where
  "train_step sess vocabulary_size data = (\<lambda>(v, w) i.
     (let (v', loss_val) =
            run_train sess (optimizer vocabulary_size) (loss vocabulary_size)
              [(X vocabulary_size, data)] v
      in (v', if i mod SKIP_STEP = 0 then print (Epoch_line i NUM_TRAIN_STEPS loss_val) w
              else w)))"

definition training_session ::
  "('v, 'l, 'm) session \<Rightarrow> nat \<Rightarrow> 32 word list list \<Rightarrow> 32 word list list \<Rightarrow>
   'l epoch_line world \<Rightarrow> ('v \<times> 'm) \<times> 'l epoch_line world" where
  "training_session sess vocabulary_size data test_data w0 =
     (let v0 = run_init sess init;
          (v, w) = foldl (train_step sess vocabulary_size data) (v0, w0) (py_range NUM_TRAIN_STEPS);
          test_data_compressed = run_fetch sess (decoder vocabulary_size)
                                   [(X vocabulary_size, test_data)] v
      in ((v, test_data_compressed), w))"

text \<open>
  Names for what the claims about the loop speak of: one optimisation step on the
  training array, the variables after \<open>i\<close> steps from their initial values, and the
  lines that report the loss returned by the steps of a list.
\<close>

definition step_of :: "('v, 'l, 'm) session \<Rightarrow> nat \<Rightarrow> 32 word list list \<Rightarrow> 'v \<Rightarrow> 'v \<times> 'l" where
  "step_of sess vocabulary_size data v =
     run_train sess (optimizer vocabulary_size) (loss vocabulary_size) [(X vocabulary_size, data)] v"

definition vars_after :: "('v, 'l, 'm) session \<Rightarrow> nat \<Rightarrow> 32 word list list \<Rightarrow> nat \<Rightarrow> 'v" where
  "vars_after sess vocabulary_size data i =
     ((\<lambda>v. fst (step_of sess vocabulary_size data v)) ^^ i) (run_init sess init)"

definition reports :: "('v, 'l, 'm) session \<Rightarrow> nat \<Rightarrow> 32 word list list \<Rightarrow> nat list \<Rightarrow> 'l epoch_line list" where
  "reports sess vocabulary_size data steps =
     map (\<lambda>i. Epoch_line (int i) 1000
                (snd (step_of sess vocabulary_size data (vars_after sess vocabulary_size data i))))
         steps"

text \<open>
  A session to test the loop with: its variables are the number of optimisation steps
  run so far, and the loss a step returns is the number of steps run before it.
\<close>

definition counting_session :: "(nat, nat, nat) session" where
  "counting_session =
     \<lparr>run_init = (\<lambda>op. 0), run_train = (\<lambda>op t fd n. (Suc n, n)), run_fetch = (\<lambda>t fd n. n)\<rparr>"

section \<open>The CIFAR-10 notebook\<close>

text \<open>
  The layers, the optimiser and the arguments of \<open>model.compile\<close> as the notebook
  writes them. A layer keeps its arguments in the order
  \<open>Conv2D(filters, kernel_size, input_shape, padding, activation, kernel_constraint)\<close>
  and \<open>Dense(units, activation, kernel_constraint)\<close>, an absent keyword being
  \<open>None\<close>. \<open>SGD(lr, momentum, decay, nesterov)\<close> is the optimiser object;
  \<open>compile\<close> takes either the name of an optimiser or such an object. Decimal
  literals are rationals.
\<close>

datatype constraint = maxnorm nat

datatype layer =
    Conv2D nat "nat \<times> nat" "(nat \<times> nat \<times> nat) option" string string "constraint option"
  | Dropout rat
  | MaxPooling2D "nat \<times> nat"
  | Flatten
  | Dense nat string "constraint option"

datatype sgd_optimizer = SGD rat rat rat bool

datatype optimizer_arg = Optimizer_name string | Optimizer_instance sgd_optimizer

record compile_args =
  compile_loss :: string
  compile_optimizer :: optimizer_arg
  compile_metrics :: "string list"

text \<open>
  A Keras model after its cell has run: its layers, what it was compiled with, and
  its weights (of the framework's type \<open>'w\<close>).
\<close>

record 'w keras_model =
  layers :: "layer list"
  compiled :: compile_args
  weights :: 'w

text \<open>
  The framework is a parameter: arrays are of type \<open>'a\<close>, weights of type \<open>'w\<close>,
  scores of type \<open>'s\<close> and the state of the random number generator of type \<open>'r\<close>.
  \<open>cifar10_arrays\<close> is what \<open>cifar10.load_data()\<close> returns,
  \<open>((X_train, y_train), (X_test, y_test))\<close>; \<open>build\<close> gives a new model its
  weights; \<open>fit\<close> trains the weights on the training arrays with the validation
  arrays, the number of epochs and the batch size; \<open>evaluate\<close> returns the list
  \<open>[loss, categorical_accuracy]\<close> of a model compiled with this one metric, as a
  pair. \<open>build\<close> and \<open>fit\<close> may draw random numbers. What a library statement
  does to the file system is a parameter too: \<open>fs_effect K statement fs\<close> is the
  set of paths that exist after \<open>statement\<close> (an import, or a call into numpy or
  Keras, named by its text) has run on the file system \<open>fs\<close>.
\<close>

record ('a, 'w, 's, 'r) keras =
  cifar10_arrays :: "('a \<times> 'a) \<times> ('a \<times> 'a)"
  astype_float32 :: "'a \<Rightarrow> 'a"
  divide :: "'a \<Rightarrow> rat \<Rightarrow> 'a"
  to_categorical :: "'a \<Rightarrow> 'a"
  shape_1 :: "'a \<Rightarrow> nat"
  random_seed :: "nat \<Rightarrow> 'r"
  build :: "layer list \<Rightarrow> 'r \<Rightarrow> 'w \<times> 'r"
  fit :: "layer list \<Rightarrow> compile_args \<Rightarrow> 'w \<Rightarrow> 'a \<Rightarrow> 'a \<Rightarrow> 'a \<times> 'a \<Rightarrow> nat \<Rightarrow> nat \<Rightarrow> 'r \<Rightarrow> 'w \<times> 'r"
  evaluate :: "layer list \<Rightarrow> compile_args \<Rightarrow> 'w \<Rightarrow> 'a \<Rightarrow> 'a \<Rightarrow> 's \<times> 's"
  fs_effect :: "string \<Rightarrow> string set \<Rightarrow> string set"

text \<open>
  The lines the notebook prints: the table of \<open>model.summary()\<close> followed by the
  \<open>None\<close> it returns (\<open>print(model.summary())\<close>), the progress of \<open>model.fit\<close>, and
  \<open>"Accuracy: %.2f%%" % (scores[1]*100)\<close>, which keeps the score it formats.
\<close>

datatype 's cifar_line =
    Summary_table "layer list"
  | None_line
  | Fit_progress nat nat
  | Accuracy_line 's

text \<open>
  The globals of the kernel, with the world. No cell reads a global before a cell
  above it has assigned it, so the run does not depend on the values the globals
  have in the initial state.
\<close>

record ('a, 'w, 's, 'r) cifar_kernel =
  X_train :: 'a
  y_train :: 'a
  X_test :: 'a
  y_test :: 'a
  seed :: nat
  numpy_random :: 'r
  num_classes :: nat
  model :: "'w keras_model"
  epochs :: nat
  lrate :: rat
  decay :: rat
  sgd :: sgd_optimizer
  scores :: "'s \<times> 's"
  world :: "'s cifar_line world"

text \<open>
  The library statements of a cell act on the file system one after the other, each
  on what the one before has left. The notebook's other statements (assignments,
  arithmetic on its own names, \<open>print\<close>) do not touch it: no cell opens, saves or
  removes a file.
\<close>

definition library_calls :: "('a, 'w, 's, 'r) keras \<Rightarrow> string list \<Rightarrow> 'e world \<Rightarrow> 'e world" where
  "library_calls K statements w =
     w\<lparr>files := foldl (\<lambda>fs statement. fs_effect K statement fs) (files w) statements\<rparr>"

text \<open>
  \<^verbatim>\<open>
  from keras.datasets import cifar10
  from matplotlib import pyplot
  \<close>
  (the imports of the first code cell).
\<close>

definition plot_imports :: "string list" where
  "plot_imports = [''from keras.datasets import cifar10'', ''from matplotlib import pyplot'']"

definition plot_imports_cell ::
  "('a, 'w, 's, 'r) keras \<Rightarrow> ('a, 'w, 's, 'r) cifar_kernel \<Rightarrow> ('a, 'w, 's, 'r) cifar_kernel" where
  "plot_imports_cell K g = g\<lparr>world := library_calls K plot_imports (world g)\<rparr>"

text \<open>
  \<^verbatim>\<open>
  (X_train, y_train), (X_test, y_test) = cifar10.load_data()
  \<close>
  (the rest of the first code cell, and again the fourth).
\<close>

definition load_cell ::
  "('a, 'w, 's, 'r) keras \<Rightarrow> ('a, 'w, 's, 'r) cifar_kernel \<Rightarrow> ('a, 'w, 's, 'r) cifar_kernel" where
  "load_cell K g =
     (case cifar10_arrays K of
        ((xtr, ytr), (xte, yte)) \<Rightarrow>
          g\<lparr>X_train := xtr, y_train := ytr, X_test := xte, y_test := yte,
            world := library_calls K [''cifar10.load_data()''] (world g)\<rparr>)"

text \<open>
  \<^verbatim>\<open>
  import numpy
  from keras.datasets import cifar10
  from keras.models import Sequential
  from keras.layers import Dense
  from keras.layers import Dropout
  from keras.layers import Flatten
  from keras.constraints import maxnorm
  from keras.optimizers import SGD
  from keras.layers.convolutional import Conv2D
  from keras.layers.convolutional import MaxPooling2D
  from keras.utils import np_utils
  from keras import backend as K
  K.set_image_dim_ordering('th')
  \<close>
  (the second code cell).
\<close>

definition model_imports :: "string list" where
  "model_imports =
     [''import numpy'', ''from keras.datasets import cifar10'',
      ''from keras.models import Sequential'', ''from keras.layers import Dense'',
      ''from keras.layers import Dropout'', ''from keras.layers import Flatten'',
      ''from keras.constraints import maxnorm'', ''from keras.optimizers import SGD'',
      ''from keras.layers.convolutional import Conv2D'',
      ''from keras.layers.convolutional import MaxPooling2D'',
      ''from keras.utils import np_utils'', ''from keras import backend as K'',
      ''K.set_image_dim_ordering'']"

definition model_imports_cell ::
  "('a, 'w, 's, 'r) keras \<Rightarrow> ('a, 'w, 's, 'r) cifar_kernel \<Rightarrow> ('a, 'w, 's, 'r) cifar_kernel" where
  "model_imports_cell K g = g\<lparr>world := library_calls K model_imports (world g)\<rparr>"

text \<open>
  \<^verbatim>\<open>
  seed = 7
  numpy.random.seed(seed)
  \<close>
\<close>

definition seed_cell ::
  "('a, 'w, 's, 'r) keras \<Rightarrow> ('a, 'w, 's, 'r) cifar_kernel \<Rightarrow> ('a, 'w, 's, 'r) cifar_kernel" where
  "seed_cell K g =
     (let g1 = g\<lparr>seed := 7\<rparr>
      in g1\<lparr>numpy_random := random_seed K (seed g1),
            world := library_calls K [''numpy.random.seed''] (world g1)\<rparr>)"

text \<open>
  \<^verbatim>\<open>
  X_train = X_train.astype('float32')
  X_test = X_test.astype('float32')
  X_train = X_train / 255.0
  X_test = X_test / 255.0
  \<close>
\<close>

definition normalize_calls :: "string list" where
  "normalize_calls = [''X_train.astype'', ''X_test.astype'', ''X_train / 255.0'', ''X_test / 255.0'']"

definition normalize_cell ::
  "('a, 'w, 's, 'r) keras \<Rightarrow> ('a, 'w, 's, 'r) cifar_kernel \<Rightarrow> ('a, 'w, 's, 'r) cifar_kernel" where
  "normalize_cell K g =
     (let g1 = g\<lparr>X_train := astype_float32 K (X_train g)\<rparr>;
          g2 = g1\<lparr>X_test := astype_float32 K (X_test g1)\<rparr>;
          g3 = g2\<lparr>X_train := divide K (X_train g2) 255\<rparr>;
          g4 = g3\<lparr>X_test := divide K (X_test g3) 255\<rparr>
      in g4\<lparr>world := library_calls K normalize_calls (world g4)\<rparr>)"

text \<open>
  \<^verbatim>\<open>
  y_train = np_utils.to_categorical(y_train)
  y_test = np_utils.to_categorical(y_test)
  num_classes = y_test.shape[1]
  \<close>
\<close>

definition one_hot_calls :: "string list" where
  "one_hot_calls = [''np_utils.to_categorical'', ''np_utils.to_categorical'']"

definition one_hot_cell ::
  "('a, 'w, 's, 'r) keras \<Rightarrow> ('a, 'w, 's, 'r) cifar_kernel \<Rightarrow> ('a, 'w, 's, 'r) cifar_kernel" where
  "one_hot_cell K g =
     (let g1 = g\<lparr>y_train := to_categorical K (y_train g)\<rparr>;
          g2 = g1\<lparr>y_test := to_categorical K (y_test g1)\<rparr>;
          g3 = g2\<lparr>num_classes := shape_1 K (y_test g2)\<rparr>
      in g3\<lparr>world := library_calls K one_hot_calls (world g3)\<rparr>)"

text \<open>
  \<^verbatim>\<open>
  model = Sequential()
  model.add(Conv2D(32, (3, 3), input_shape=(3, 32, 32), padding='same', activation='relu', kernel_constraint=maxnorm(3)))
  model.add(Dropout(0.2))
  model.add(Conv2D(32, (3, 3), activation='relu', padding='same', kernel_constraint=maxnorm(3)))
  model.add(MaxPooling2D(pool_size=(2, 2)))
  model.add(Flatten())
  model.add(Dense(512, activation='relu', kernel_constraint=maxnorm(3)))
  model.add(Dropout(0.5))
  model.add(Dense(num_classes, activation='softmax'))
  epochs = 10
  lrate = 0.01
  decay = lrate/epochs
  sgd = SGD(lr=lrate, momentum=0.9, decay=decay, nesterov=False)
  model.compile(loss='categorical_crossentropy', optimizer='adagrad', metrics=['categorical_accuracy'])
  print(model.summary())
  \<close>
\<close>

definition compile_calls :: "string list" where
  "compile_calls = [''SGD'', ''model.compile'', ''model.summary'']"

definition simple_model_calls :: "string list" where
  "simple_model_calls = [''Sequential''] @ replicate 8 ''model.add'' @ compile_calls"

definition simple_layers :: "nat \<Rightarrow> layer list" where
  "simple_layers classes =
     [Conv2D 32 (3, 3) (Some (3, 32, 32)) ''same'' ''relu'' (Some (maxnorm 3)),
      Dropout (2 / 10),
      Conv2D 32 (3, 3) None ''same'' ''relu'' (Some (maxnorm 3)),
      MaxPooling2D (2, 2),
      Flatten,
      Dense 512 ''relu'' (Some (maxnorm 3)),
      Dropout (5 / 10),
      Dense classes ''softmax'' None]"

definition simple_model_cell ::
  "('a, 'w, 's, 'r) keras \<Rightarrow> ('a, 'w, 's, 'r) cifar_kernel \<Rightarrow> ('a, 'w, 's, 'r) cifar_kernel" where
  "simple_model_cell K g =
     (case build K (simple_layers (num_classes g)) (numpy_random g) of
        (w, r) \<Rightarrow>
          (let g1 = g\<lparr>numpy_random := r\<rparr>;
               g2 = g1\<lparr>epochs := 10\<rparr>;
               g3 = g2\<lparr>lrate := 1 / 100\<rparr>;
               g4 = g3\<lparr>decay := lrate g3 / of_nat (epochs g3)\<rparr>;
               g5 = g4\<lparr>sgd := SGD (lrate g4) (9 / 10) (decay g4) False\<rparr>;
               g6 = g5\<lparr>model :=
                      \<lparr>layers = simple_layers (num_classes g5),
                       compiled = \<lparr>compile_loss = ''categorical_crossentropy'',
                                   compile_optimizer = Optimizer_name ''adagrad'',
                                   compile_metrics = [''categorical_accuracy'']\<rparr>,
                       weights = w\<rparr>\<rparr>
           in g6\<lparr>world := print None_line
                            (print (Summary_table (layers (model g6)))
                               (library_calls K simple_model_calls (world g6)))\<rparr>))"

text \<open>
  \<^verbatim>\<open>
  model.fit(X_train, y_train, validation_data=(X_test, y_test), epochs=epochs, batch_size=32)
  scores = model.evaluate(X_test, y_test, verbose=0)
  print("Accuracy: %.2f%%" % (scores[1]*100))
  \<close>
  with the batch size as an argument: the cell of the larger model has
  \<open>batch_size=64\<close>.
\<close>

definition fit_evaluate ::
  "('a, 'w, 's, 'r) keras \<Rightarrow> nat \<Rightarrow> ('a, 'w, 's, 'r) cifar_kernel \<Rightarrow> ('a, 'w, 's, 'r) cifar_kernel" where
  "fit_evaluate K batch_size g =
     (case fit K (layers (model g)) (compiled (model g)) (weights (model g))
             (X_train g) (y_train g) (X_test g, y_test g) (epochs g) batch_size (numpy_random g) of
        (w, r) \<Rightarrow>
          (let g1 = g\<lparr>model := (model g)\<lparr>weights := w\<rparr>, numpy_random := r,
                      world := print (Fit_progress (epochs g) batch_size)
                                 (library_calls K [''model.fit''] (world g))\<rparr>;
               g2 = g1\<lparr>scores := evaluate K (layers (model g1)) (compiled (model g1))
                                    (weights (model g1)) (X_test g1) (y_test g1),
                       world := library_calls K [''model.evaluate''] (world g1)\<rparr>
           in g2\<lparr>world := print (Accuracy_line (snd (scores g2))) (world g2)\<rparr>))"

definition fit_cell ::
  "('a, 'w, 's, 'r) keras \<Rightarrow> ('a, 'w, 's, 'r) cifar_kernel \<Rightarrow> ('a, 'w, 's, 'r) cifar_kernel" where
  "fit_cell K g = fit_evaluate K 32 g"

text \<open>
  \<^verbatim>\<open>
  model = Sequential()
  model.add(Conv2D(32, (3, 3), input_shape=(3, 32, 32), activation='relu', padding='same'))
  model.add(Dropout(0.2))
  model.add(Conv2D(32, (3, 3), activation='relu', padding='same'))
  model.add(MaxPooling2D(pool_size=(2, 2)))
  model.add(Conv2D(64, (3, 3), activation='relu', padding='same'))
  model.add(Dropout(0.2))
  model.add(Conv2D(64, (3, 3), activation='relu', padding='same'))
  model.add(MaxPooling2D(pool_size=(2, 2)))
  model.add(Conv2D(128, (3, 3), activation='relu', padding='same'))
  model.add(Dropout(0.2))
  model.add(Conv2D(128, (3, 3), activation='relu', padding='same'))
  model.add(MaxPooling2D(pool_size=(2, 2)))
  model.add(Flatten())
  model.add(Dropout(0.2))
  model.add(Dense(1024, activation='relu', kernel_constraint=maxnorm(3)))
  model.add(Dropout(0.2))
  model.add(Dense(512, activation='relu', kernel_constraint=maxnorm(3)))
  model.add(Dropout(0.2))
  model.add(Dense(num_classes, activation='softmax'))
  epochs = 10
  lrate = 0.01
  decay = lrate/epochs
  sgd = SGD(lr=lrate, momentum=0.9, decay=decay, nesterov=False)
  model.compile(loss='categorical_crossentropy', optimizer='adagrad', metrics=['categorical_accuracy'])
  print(model.summary())
  \<close>
\<close>

definition larger_model_calls :: "string list" where
  "larger_model_calls = [''Sequential''] @ replicate 19 ''model.add'' @ compile_calls"

definition larger_layers :: "nat \<Rightarrow> layer list" where
  "larger_layers classes =
     [Conv2D 32 (3, 3) (Some (3, 32, 32)) ''same'' ''relu'' None,
      Dropout (2 / 10),
      Conv2D 32 (3, 3) None ''same'' ''relu'' None,
      MaxPooling2D (2, 2),
      Conv2D 64 (3, 3) None ''same'' ''relu'' None,
      Dropout (2 / 10),
      Conv2D 64 (3, 3) None ''same'' ''relu'' None,
      MaxPooling2D (2, 2),
      Conv2D 128 (3, 3) None ''same'' ''relu'' None,
      Dropout (2 / 10),
      Conv2D 128 (3, 3) None ''same'' ''relu'' None,
      MaxPooling2D (2, 2),
      Flatten,
      Dropout (2 / 10),
      Dense 1024 ''relu'' (Some (maxnorm 3)),
      Dropout (2 / 10),
      Dense 512 ''relu'' (Some (maxnorm 3)),
      Dropout (2 / 10),
      Dense classes ''softmax'' None]"

definition larger_model_cell ::
  "('a, 'w, 's, 'r) keras \<Rightarrow> ('a, 'w, 's, 'r) cifar_kernel \<Rightarrow> ('a, 'w, 's, 'r) cifar_kernel" where
  "larger_model_cell K g =
     (case build K (larger_layers (num_classes g)) (numpy_random g) of
        (w, r) \<Rightarrow>
          (let g1 = g\<lparr>numpy_random := r\<rparr>;
               g2 = g1\<lparr>epochs := 10\<rparr>;
               g3 = g2\<lparr>lrate := 1 / 100\<rparr>;
               g4 = g3\<lparr>decay := lrate g3 / of_nat (epochs g3)\<rparr>;
               g5 = g4\<lparr>sgd := SGD (lrate g4) (9 / 10) (decay g4) False\<rparr>;
               g6 = g5\<lparr>model :=
                      \<lparr>layers = larger_layers (num_classes g5),
                       compiled = \<lparr>compile_loss = ''categorical_crossentropy'',
                                   compile_optimizer = Optimizer_name ''adagrad'',
                                   compile_metrics = [''categorical_accuracy'']\<rparr>,
                       weights = w\<rparr>\<rparr>
           in g6\<lparr>world := print None_line
                            (print (Summary_table (layers (model g6)))
                               (library_calls K larger_model_calls (world g6)))\<rparr>))"

text \<open>
  \<^verbatim>\<open>
  numpy.random.seed(seed)
  model.fit(X_train, y_train, validation_data=(X_test, y_test), epochs=epochs, batch_size=64)
  scores = model.evaluate(X_test, y_test, verbose=0)
  print("Accuracy: %.2f%%" % (scores[1]*100))
  \<close>
\<close>

definition larger_fit_cell ::
  "('a, 'w, 's, 'r) keras \<Rightarrow> ('a, 'w, 's, 'r) cifar_kernel \<Rightarrow> ('a, 'w, 's, 'r) cifar_kernel" where
  "larger_fit_cell K g =
     fit_evaluate K 64
       (g\<lparr>numpy_random := random_seed K (seed g),
          world := library_calls K [''numpy.random.seed''] (world g)\<rparr>)"


definition cifar_notebook ::
  "('a, 'w, 's, 'r) keras \<Rightarrow> ('a, 'w, 's, 'r) cifar_kernel \<Rightarrow> ('a, 'w, 's, 'r) cifar_kernel" where
  "cifar_notebook K g0 =
     (let g1 = load_cell K (plot_imports_cell K g0);
          g2 = model_imports_cell K g1;
          g3 = seed_cell K g2;
          g4 = load_cell K g3;
          g5 = normalize_cell K g4;
          g6 = one_hot_cell K g5;
          g7 = simple_model_cell K g6;
          g8 = fit_cell K g7;
          g9 = larger_model_cell K g8
      in larger_fit_cell K g9)"

text \<open>
  Names for what the claims about this notebook speak of: the arguments of both
  \<open>compile\<close> calls, the four arrays after the cells that normalise the images and
  one-hot encode the labels, and a framework and a kernel of unit types to run the
  notebook on, the framework with a given effect of its statements on the file
  system.
\<close>

definition adagrad_args :: compile_args where
  "adagrad_args = \<lparr>compile_loss = ''categorical_crossentropy'',
                   compile_optimizer = Optimizer_name ''adagrad'',
                   compile_metrics = [''categorical_accuracy'']\<rparr>"

definition prepared :: "('a, 'w, 's, 'r) keras \<Rightarrow> ('a \<times> 'a) \<times> ('a \<times> 'a)" where
  "prepared K =
     (case cifar10_arrays K of
        ((xtr, ytr), (xte, yte)) \<Rightarrow>
          ((divide K (astype_float32 K xtr) 255, to_categorical K ytr),
           (divide K (astype_float32 K xte) 255, to_categorical K yte)))"






section \<open>Running the cells of a notebook from top to bottom\<close>

text \<open>
  On a new kernel no global name is bound. A statement looks up the global names it
  evaluates, in evaluation order, and the first one that is not bound raises
  \<open>NameError\<close>; otherwise it binds the names it assigns, imports or defines. The
  body of a \<open>def\<close> looks its globals up when the function is called, so a call reads
  the function's name, the names of its arguments and the globals of the body.
  Built-in names (\<open>print\<close>, \<open>len\<close>, \<open>range\<close>, \<open>dict\<close>, \<open>zip\<close>) are always bound and
  are left out. Running all cells runs their statements in order and stops at the
  first exception. \<open>Stmt reads binds\<close> is a statement by the names it reads and the
  names it binds.
\<close>

datatype stmt = Stmt "string list" "string list"

fun run_stmt :: "string list \<Rightarrow> stmt \<Rightarrow> error + string list" where
  "run_stmt bound (Stmt reads binds) =
     (case filter (\<lambda>name. name \<notin> set bound) reads of
        [] \<Rightarrow> Inr (bound @ binds)
      | name # _ \<Rightarrow> Inl (NameError name))"

fun run_stmts :: "string list \<Rightarrow> stmt list \<Rightarrow> error + string list" where
  "run_stmts bound [] = Inr bound"
| "run_stmts bound (st # sts) =
     (case run_stmt bound st of Inl e \<Rightarrow> Inl e | Inr bound' \<Rightarrow> run_stmts bound' sts)"

definition run_all :: "stmt list list \<Rightarrow> error + string list" where
  "run_all cells = run_stmts [] (concat cells)"

text \<open>
  The code cells of the autoencoder notebook, one list of statements per cell, in
  the order of the file. The cell that builds \<open>optimizer\<close> with
  \<open>learning_rate=LEARNING_RATE\<close> stands above the cell that assigns
  \<open>LEARNING_RATE\<close>, \<open>NUM_TRAIN_STEPS\<close> and \<open>SKIP_STEP\<close>.
\<close>

definition imports_cell :: "stmt list" where
  "imports_cell =
     [Stmt [] [''os''], Stmt [] [''randint''], Stmt [] [''Counter''],
      Stmt [''os''] [],
      Stmt [] [''np''], Stmt [] [''tf'']]"

definition corpus_cell :: "stmt list" where
  "corpus_cell = [Stmt [] [''corpus''], Stmt [] [''test_corpus''], Stmt [''corpus''] []]"

definition vocabulary_cells :: "stmt list list" where
  "vocabulary_cells =
     [[Stmt [] [''build_vocab'']],
      [Stmt [''build_vocab'', ''corpus'', ''Counter''] [''vocabulary'', ''reverse_vocabulary'']],
      [Stmt [''vocabulary''] []],
      [Stmt [] [''index_words_in_corpus'']],
      [Stmt [''index_words_in_corpus'', ''corpus'', ''vocabulary''] [''corpus''],
       Stmt [''index_words_in_corpus'', ''test_corpus'', ''vocabulary''] [''test_corpus'']],
      [Stmt [''test_corpus''] []],
      [Stmt [''vocabulary''] [''vocabulary_size''], Stmt [''vocabulary_size''] []]]"

definition data_cells :: "stmt list list" where
  "data_cells =
     [[Stmt [] [''one_hot_encode'']],
      [Stmt [''np'', ''corpus'', ''one_hot_encode'', ''np'', ''vocabulary_size''] [''data''],
       Stmt [''np'', ''test_corpus'', ''one_hot_encode'', ''np'', ''vocabulary_size''] [''test_data'']],
      [Stmt [''data''] [], Stmt [''test_data''] []],
      [Stmt [''data'', ''randint'', ''data''] []]]"

definition graph_cells :: "stmt list list" where
  "graph_cells =
     [[Stmt [''tf'', ''tf'', ''vocabulary_size''] [''X''],
       Stmt [''tf'', ''tf'', ''vocabulary_size''] [''Y'']],
      [Stmt [''tf'', ''tf'', ''vocabulary_size''] [''w1''],
       Stmt [''tf'', ''tf''] [''b1''],
       Stmt [''tf'', ''tf'', ''tf'', ''X'', ''w1'', ''b1''] [''layer1''],
       Stmt [''tf'', ''tf''] [''w2''],
       Stmt [''tf'', ''tf''] [''b2''],
       Stmt [''tf'', ''tf'', ''tf'', ''layer1'', ''w2'', ''b2''] [''layer2''],
       Stmt [''tf'', ''tf''] [''w''],
       Stmt [''tf'', ''tf''] [''b''],
       Stmt [''tf'', ''tf'', ''tf'', ''layer2'', ''w'', ''b''] [''code''],
       Stmt [''tf'', ''tf''] [''w3''],
       Stmt [''tf'', ''tf''] [''b3''],
       Stmt [''tf'', ''tf'', ''tf'', ''code'', ''w3'', ''b3''] [''layer3''],
       Stmt [''tf'', ''tf''] [''w4''],
       Stmt [''tf'', ''tf''] [''b4''],
       Stmt [''tf'', ''tf'', ''tf'', ''layer3'', ''w4'', ''b4''] [''layer4''],
       Stmt [''tf'', ''tf'', ''vocabulary_size''] [''w5''],
       Stmt [''tf'', ''tf'', ''vocabulary_size''] [''b5''],
       Stmt [''tf'', ''tf'', ''tf'', ''layer4'', ''w5'', ''b5''] [''decoder'']],
      [Stmt [''tf'', ''tf'', ''X'', ''decoder''] [''loss'']]]"

definition optimizer_cell :: "stmt list" where
  "optimizer_cell =
     [Stmt [''tf'', ''LEARNING_RATE'', ''loss''] [''optimizer''],
      Stmt [''tf''] [''init'']]"

definition constants_cell :: "stmt list" where
  "constants_cell =
     [Stmt [] [''LEARNING_RATE''], Stmt [] [''NUM_TRAIN_STEPS''], Stmt [] [''SKIP_STEP'']]"

definition session_cell :: "stmt list" where
  "session_cell =
     [Stmt [''tf''] [''sess''],
      Stmt [''sess'', ''init''] [],
      Stmt [''NUM_TRAIN_STEPS''] [''i''],
      Stmt [''sess'', ''optimizer'', ''loss'', ''X'', ''data''] [''_'', ''loss_val''],
      Stmt [''i'', ''SKIP_STEP'', ''i'', ''NUM_TRAIN_STEPS'', ''loss_val''] [],
      Stmt [''sess'', ''decoder'', ''X'', ''test_data''] [''test_data_compressed'']]"

definition inspection_cells :: "stmt list list" where
  "inspection_cells =
     [[Stmt [''test_data_compressed''] []],
      [Stmt [''test_data_compressed''] []],
      [Stmt [''test_data_compressed'', ''test_data_compressed''] []],
      [Stmt [''test_data_compressed''] []],
      [Stmt [''test_data''] []],
      [Stmt [''np'', ''test_data_compressed''] [''sent''],
       Stmt [''sent'', ''sent'', ''reverse_vocabulary''] []]]"

definition autoencoder_cells :: "stmt list list" where
  "autoencoder_cells =
     [imports_cell, corpus_cell] @ vocabulary_cells @ data_cells @ graph_cells @
     [optimizer_cell, constants_cell, session_cell] @ inspection_cells"

text \<open>
  The same cells in the order of the recorded run's bindings, the constants before the
  optimiser.
\<close>

definition autoencoder_cells_constants_first :: "stmt list list" where
  "autoencoder_cells_constants_first =
     [imports_cell, corpus_cell] @ vocabulary_cells @ data_cells @ graph_cells @
     [constants_cell, optimizer_cell, session_cell] @ inspection_cells"

text \<open>The code cells of the CIFAR-10 notebook, in the order of the file.\<close>

definition cifar_load_stmts :: "stmt list" where
  "cifar_load_stmts = [Stmt [''cifar10''] [''X_train'', ''y_train'', ''X_test'', ''y_test'']]"

definition cifar_compile_stmts :: "stmt list" where
  "cifar_compile_stmts =
     [Stmt [] [''epochs''],
      Stmt [] [''lrate''],
      Stmt [''lrate'', ''epochs''] [''decay''],
      Stmt [''SGD'', ''lrate'', ''decay''] [''sgd''],
      Stmt [''model''] [],
      Stmt [''model''] []]"

definition cifar_fit_stmts :: "stmt list" where
  "cifar_fit_stmts =
     [Stmt [''model'', ''X_train'', ''y_train'', ''X_test'', ''y_test'', ''epochs''] [],
      Stmt [''model'', ''X_test'', ''y_test''] [''scores''],
      Stmt [''scores''] []]"

definition cifar_cells :: "stmt list list" where
  "cifar_cells =
     [[Stmt [] [''cifar10''], Stmt [] [''pyplot'']] @ cifar_load_stmts,
      [Stmt [] [''numpy''], Stmt [] [''cifar10''], Stmt [] [''Sequential''], Stmt [] [''Dense''],
       Stmt [] [''Dropout''], Stmt [] [''Flatten''], Stmt [] [''maxnorm''], Stmt [] [''SGD''],
       Stmt [] [''Conv2D''], Stmt [] [''MaxPooling2D''], Stmt [] [''np_utils''], Stmt [] [''K''],
       Stmt [''K''] []],
      [Stmt [] [''seed''], Stmt [''numpy'', ''seed''] []],
      cifar_load_stmts,
      [Stmt [''X_train''] [''X_train''], Stmt [''X_test''] [''X_test''],
       Stmt [''X_train''] [''X_train''], Stmt [''X_test''] [''X_test'']],
      [Stmt [''np_utils'', ''y_train''] [''y_train''], Stmt [''np_utils'', ''y_test''] [''y_test''],
       Stmt [''y_test''] [''num_classes'']],
      [Stmt [''Sequential''] [''model''],
       Stmt [''model'', ''Conv2D'', ''maxnorm''] [],
       Stmt [''model'', ''Dropout''] [],
       Stmt [''model'', ''Conv2D'', ''maxnorm''] [],
       Stmt [''model'', ''MaxPooling2D''] [],
       Stmt [''model'', ''Flatten''] [],
       Stmt [''model'', ''Dense'', ''maxnorm''] [],
       Stmt [''model'', ''Dropout''] [],
       Stmt [''model'', ''Dense'', ''num_classes''] []] @ cifar_compile_stmts,
      cifar_fit_stmts,
      [Stmt [''Sequential''] [''model''],
       Stmt [''model'', ''Conv2D''] [],
       Stmt [''model'', ''Dropout''] [],
       Stmt [''model'', ''Conv2D''] [],
       Stmt [''model'', ''MaxPooling2D''] [],
       Stmt [''model'', ''Conv2D''] [],
       Stmt [''model'', ''Dropout''] [],
       Stmt [''model'', ''Conv2D''] [],
       Stmt [''model'', ''MaxPooling2D''] [],
       Stmt [''model'', ''Conv2D''] [],
       Stmt [''model'', ''Dropout''] [],
       Stmt [''model'', ''Conv2D''] [],
       Stmt [''model'', ''MaxPooling2D''] [],
       Stmt [''model'', ''Flatten''] [],
       Stmt [''model'', ''Dropout''] [],
       Stmt [''model'', ''Dense'', ''maxnorm''] [],
       Stmt [''model'', ''Dropout''] [],
       Stmt [''model'', ''Dense'', ''maxnorm''] [],
       Stmt [''model'', ''Dropout''] [],
       Stmt [''model'', ''Dense'', ''num_classes''] []] @ cifar_compile_stmts,
      [Stmt [''numpy'', ''seed''] []] @ cifar_fit_stmts]"

section \<open>Properties of dictionaries\<close>

lemma keys_dict_setitem:
  "map fst (dict_setitem d k v) = (if k \<in> set (map fst d) then map fst d else map fst d @ [k])"
  by (induction d) (force split: if_splits)+

lemma dict_setitem_fresh: "k \<notin> set (map fst d) \<Longrightarrow> dict_setitem d k v = d @ [(k, v)]"
  by (induction d) auto

lemma distinct_keys_dict_setitem:
  "distinct (map fst d) \<Longrightarrow> distinct (map fst (dict_setitem d k v))"
  by (simp add: keys_dict_setitem)

lemma keys_Counter_foldl:
  fixes c :: "('k, int) dict"
  shows "distinct (map fst c) \<Longrightarrow>
   distinct (map fst (foldl (\<lambda>c w. dict_setitem c w (dict_get c w 0 + 1)) c ws)) \<and>
   set (map fst (foldl (\<lambda>c w. dict_setitem c w (dict_get c w 0 + 1)) c ws)) = set (map fst c) \<union> set ws"
proof (induction ws arbitrary: c)
  case Nil
  then show ?case by simp
next
  case (Cons w ws)
  have d: "distinct (map fst (dict_setitem c w (dict_get c w 0 + 1)))"
    using Cons.prems by (rule distinct_keys_dict_setitem)
  have s: "set (map fst (dict_setitem c w (dict_get c w 0 + 1))) = insert w (set (map fst c))"
    by (auto simp: keys_dict_setitem)
  from Cons.IH [OF d] s show ?case by auto
qed

lemma distinct_keys_Counter: "distinct (map fst (Counter ws))"
  using keys_Counter_foldl [of "[]" ws] by (simp add: Counter_def)

lemma set_keys_Counter: "set (map fst (Counter ws)) = set ws"
  using keys_Counter_foldl [of "[]" ws] by (simp add: Counter_def)

lemma length_Counter: "length (Counter ws) = card (set ws)"
proof -
  have "card (set (map fst (Counter ws))) = length (map fst (Counter ws))"
    by (rule distinct_card) (rule distinct_keys_Counter)
  then show ?thesis by (simp only: set_keys_Counter length_map)
qed

lemma distinct_keys_sort_key: "distinct (map fst (sort_key f c)) = distinct (map fst c)"
  by (simp add: distinct_map)

lemma keys_most_common:
  "distinct (map fst c) \<Longrightarrow> distinct (map fst (most_common c n))"
  "set (map fst (most_common c n)) \<subseteq> set (map fst c)"
  "length (most_common c n) = min (nat n) (length c)"
proof -
  show "distinct (map fst c) \<Longrightarrow> distinct (map fst (most_common c n))"
    by (simp add: most_common_def take_map [symmetric] distinct_keys_sort_key)
  have "set (take (nat n) (sort_key (\<lambda>p. - snd p) c)) \<subseteq> set c"
    using set_take_subset [of "nat n" "sort_key (\<lambda>p. - snd p) c"] by simp
  then show "set (map fst (most_common c n)) \<subseteq> set (map fst c)"
    by (auto simp: most_common_def)
  show "length (most_common c n) = min (nat n) (length c)"
    by (auto simp: most_common_def)
qed

lemma assign_indices_fresh:
  "distinct (map fst count) \<Longrightarrow> set (map fst count) \<inter> set (map fst d) = {} \<Longrightarrow>
   assign_indices count (d, i) =
     (d @ zip (map fst count) (map (\<lambda>j. i + int j) [0..<length count]), i + int (length count))"
proof (induction count arbitrary: d i)
  case Nil
  then show ?case by simp
next
  case (Cons p count)
  obtain w c where p: "p = (w, c)" by (cases p)
  from Cons.prems p have fresh: "w \<notin> set (map fst d)" by auto
  have step: "dict_setitem d w i = d @ [(w, i)]"
    using fresh by (rule dict_setitem_fresh)
  have d1: "distinct (map fst count)" using Cons.prems by simp
  have d2: "set (map fst count) \<inter> set (map fst (d @ [(w, i)])) = {}"
    using Cons.prems p by auto
  have shift: "map (\<lambda>j. i + int j) [0..<Suc (length count)] =
               i # map (\<lambda>j. i + 1 + int j) [0..<length count]"
    by (simp add: map_upt_Suc del: upt_Suc)
  show ?case
    using Cons.IH [OF d1 d2, of "i + 1"] by (simp add: p step shift del: upt_Suc)
qed

lemma dict_of_pairs_foldl:
  "distinct (map fst (d @ ps)) \<Longrightarrow> foldl (\<lambda>d (k, v). dict_setitem d k v) d ps = d @ ps"
proof (induction ps arbitrary: d)
  case Nil
  then show ?case by simp
next
  case (Cons p ps)
  obtain k v where p: "p = (k, v)" by (cases p)
  from Cons.prems p have "k \<notin> set (map fst d)" by auto
  then have step: "dict_setitem d k v = d @ [(k, v)]" by (rule dict_setitem_fresh)
  have "distinct (map fst ((d @ [(k, v)]) @ ps))" using Cons.prems p by simp
  from Cons.IH [OF this] show ?case by (simp add: p step)
qed

lemma dict_of_pairs_distinct: "distinct (map fst ps) \<Longrightarrow> dict_of_pairs ps = ps"
  using dict_of_pairs_foldl [of "[]" ps] by (simp add: dict_of_pairs_def)

lemma length_indices: "length (indices n) = n"
  by (simp add: indices_def)

lemma distinct_indices: "distinct (indices n)"
  unfolding indices_def by (subst distinct_map) (simp add: inj_on_def)

lemma distinct_vocab_keys:
  "''UNK'' \<notin> set words \<Longrightarrow> distinct (vocab_keys words vocab_size)"
proof -
  assume unk: "''UNK'' \<notin> set words"
  have "set (map fst (most_common (Counter words) (vocab_size - 1))) \<subseteq> set words"
    using keys_most_common(2) [of "Counter words" "vocab_size - 1"]
    by (simp only: set_keys_Counter)
  with unk have "''UNK'' \<notin> set (map fst (most_common (Counter words) (vocab_size - 1)))"
    by blast
  moreover have "distinct (map fst (most_common (Counter words) (vocab_size - 1)))"
    by (rule keys_most_common(1)) (rule distinct_keys_Counter)
  ultimately show ?thesis by (simp only: vocab_keys_def distinct.simps) simp
qed

lemma length_vocab_keys:
  "length (vocab_keys words vocab_size) = 1 + min (nat (vocab_size - 1)) (card (set words))"
  by (simp add: vocab_keys_def keys_most_common(3) length_Counter)

lemma build_vocab_zip:
  assumes "''UNK'' \<notin> set words"
  shows "build_vocab words vocab_size =
           (zip (vocab_keys words vocab_size) (indices (length (vocab_keys words vocab_size))),
            zip (indices (length (vocab_keys words vocab_size))) (vocab_keys words vocab_size))"
proof -
  let ?count = "[(''UNK'', - 1)] @ most_common (Counter words) (vocab_size - 1)"
  let ?ks = "vocab_keys words vocab_size"
  have ks: "map fst ?count = ?ks" by (simp add: vocab_keys_def)
  have dk: "distinct ?ks" using assms by (rule distinct_vocab_keys)
  have a: "assign_indices ?count ([], 0) = (zip ?ks (indices (length ?ks)), int (length ?ks))"
    using assign_indices_fresh [of ?count "[]" 0] dk
    by (simp only: ks) (simp add: indices_def vocab_keys_def)
  have vals: "map snd (zip ?ks (indices (length ?ks))) = indices (length ?ks)"
    by (simp add: indices_def)
  have keys: "map fst (zip ?ks (indices (length ?ks))) = ?ks"
    by (simp add: indices_def)
  have r: "dict_of_pairs (zip (indices (length ?ks)) ?ks) = zip (indices (length ?ks)) ?ks"
    by (rule dict_of_pairs_distinct) (simp add: distinct_indices length_indices)
  show ?thesis
    unfolding build_vocab_def Let_def a by (simp only: prod.case vals keys r)
qed

lemma comprehension_total:
  "(\<And>x. x \<in> set xs \<Longrightarrow> f x = Inr (g x)) \<Longrightarrow> comprehension f xs = Inr (map g xs)"
  by (induction xs) simp_all

lemma map_of_zip_inverse:
  assumes "distinct ks" and "distinct vs" and "length ks = length vs"
  shows "map_of (zip ks vs) k = Some v \<longleftrightarrow> map_of (zip vs ks) v = Some k"
proof -
  have "map_of (zip ks vs) k = Some v \<longleftrightarrow> (k, v) \<in> set (zip ks vs)"
    using assms by (simp add: map_of_eq_Some_iff)
  also have "\<dots> \<longleftrightarrow> (v, k) \<in> set (zip vs ks)"
    by (auto simp: in_set_zip)
  also have "\<dots> \<longleftrightarrow> map_of (zip vs ks) v = Some k"
    using assms by (simp add: map_of_eq_Some_iff)
  finally show ?thesis .
qed

lemma dict_getitem_Inr: "dict_getitem d k = Inr v \<longleftrightarrow> map_of d k = Some v"
  by (simp add: dict_getitem_def split: option.splits)

lemma index_words_in_corpus_map:
  "index_words_in_corpus vocabulary corpus =
     Inr (map (\<lambda>token. case map_of vocabulary token of None \<Rightarrow> 0 | Some i \<Rightarrow> i) corpus)"
  unfolding index_words_in_corpus_def
  by (rule comprehension_total)
     (simp add: dict_contains_def dict_getitem_def split: option.splits)

lemma one_hot_encode_in_range:
  "0 \<le> index \<Longrightarrow> index < int n \<Longrightarrow>
   one_hot_encode n index = Inr ((replicate n 0)[nat index := 1])"
  by (simp add: one_hot_encode_def np_setitem_def np_zeros_def)

lemma vocabulary_index_in_range:
  assumes "0 < n" and "length ks = n"
  shows "0 \<le> (case map_of (zip ks (indices n)) token of None \<Rightarrow> 0 | Some i \<Rightarrow> i) \<and>
         (case map_of (zip ks (indices n)) token of None \<Rightarrow> 0 | Some i \<Rightarrow> i) < int n"
proof (cases "map_of (zip ks (indices n)) token")
  case None
  with assms show ?thesis by simp
next
  case (Some i)
  then have "(token, i) \<in> set (zip ks (indices n))" by (rule map_of_SomeD)
  then have "i \<in> set (indices n)" by (rule set_zip_rightD)
  then have "0 \<le> i \<and> i < int n" by (auto simp: indices_def)
  with Some show ?thesis by simp
qed

lemma training_array_rows:
  assumes "''UNK'' \<notin> set words"
  shows "\<exists>vocabulary reverse_vocabulary corpus rows.
           build_vocab words vocab_size = (vocabulary, reverse_vocabulary) \<and>
           index_words_in_corpus vocabulary words = Inr corpus \<and>
           training_array words vocab_size = Inr rows \<and>
           length corpus = length words \<and> length rows = length words \<and>
           (\<forall>j < length words.
              0 \<le> corpus ! j \<and> corpus ! j < int (length vocabulary) \<and>
              rows ! j = (replicate (length vocabulary) 0)[nat (corpus ! j) := 1])"
proof -
  let ?ks = "vocab_keys words vocab_size"
  let ?n = "length ?ks"
  let ?d = "zip ?ks (indices ?n)"
  let ?r = "zip (indices ?n) ?ks"
  let ?g = "\<lambda>token. case map_of ?d token of None \<Rightarrow> 0 | Some i \<Rightarrow> i"
  let ?h = "\<lambda>i::int. (replicate ?n (0::32 word))[nat i := 1]"
  have bv: "build_vocab words vocab_size = (?d, ?r)"
    using assms by (rule build_vocab_zip)
  have pos: "0 < ?n" by (simp add: vocab_keys_def)
  have len: "length ?d = ?n" by (simp add: length_indices)
  have idx: "index_words_in_corpus ?d words = Inr (map ?g words)"
    by (rule index_words_in_corpus_map)
  have range: "0 \<le> ?g token \<and> ?g token < int ?n" for token
    using pos by (rule vocabulary_index_in_range) simp
  have enc: "comprehension (one_hot_encode ?n) (map ?g words) = Inr (map ?h (map ?g words))"
  proof (rule comprehension_total)
    fix i assume "i \<in> set (map ?g words)"
    then obtain token where i: "i = ?g token" by auto
    show "one_hot_encode ?n i = Inr (?h i)"
      unfolding i using range [of token] by (simp add: one_hot_encode_in_range)
  qed
  have ta: "training_array words vocab_size = Inr (map ?h (map ?g words))"
    unfolding training_array_def bv by (simp only: prod.case idx sum.case Let_def len enc)
  show ?thesis
  proof (intro exI conjI)
    show "build_vocab words vocab_size = (?d, ?r)" by (rule bv)
    show "index_words_in_corpus ?d words = Inr (map ?g words)" by (rule idx)
    show "training_array words vocab_size = Inr (map ?h (map ?g words))" by (rule ta)
    show "length (map ?g words) = length words" by simp
    show "length (map ?h (map ?g words)) = length words" by simp
    show "\<forall>j < length words.
            0 \<le> map ?g words ! j \<and> map ?g words ! j < int (length ?d) \<and>
            map ?h (map ?g words) ! j = (replicate (length ?d) 0)[nat (map ?g words ! j) := 1]"
      using range by (simp add: length_indices)
  qed
qed

section \<open>The corpus of the notebook\<close>

lemma nb_corpus_words:
  "nb_corpus = [''the'', ''quick'', ''brown'', ''fox'', ''jumped'', ''over'', ''the'',
                ''lazy'', ''dog'', ''from'', ''the'', ''quick'', ''tall'', ''fox'']"
  by (simp add: nb_corpus_def str_split_def)

lemma nb_corpus_no_UNK: "''UNK'' \<notin> set nb_corpus"
  by (simp add: nb_corpus_words)

lemma nb_corpus_distinct_words: "card (set nb_corpus) = 10"
  unfolding nb_corpus_words List.card_set by simp

lemma nb_corpus_length: "length nb_corpus = 14"
  by (simp add: nb_corpus_words)

lemma nb_vocabulary_size: "build_vocab nb_corpus 100 = (vocabulary, rv) \<Longrightarrow> length vocabulary = 11"
  using build_vocab_zip [OF nb_corpus_no_UNK, of 100]
  by (auto simp: length_indices length_vocab_keys nb_corpus_distinct_words)

section \<open>Claims about the vocabulary\<close>

text \<open>
  C10. For every word list without the token \<open>'UNK'\<close> and every \<open>vocab_size \<ge> 1\<close>,
  \<open>build_vocab\<close> returns two dictionaries of the same size
  \<open>n = 1 + min (vocab_size - 1) (number of distinct words)\<close>, each with one entry per key;
  \<open>'UNK'\<close> has index 0, the indices assigned are exactly \<open>0, \<dots>, n - 1\<close>, and a word
  has an index in the first dictionary exactly when that index has the word in the
  second, so the two are inverse to each other.
\<close>

theorem build_vocab_mutual_inverses:
  assumes "''UNK'' \<notin> set words" and "1 \<le> vocab_size"
  shows "\<exists>dictionary index_dictionary n.
           build_vocab words vocab_size = (dictionary, index_dictionary) \<and>
           int n = 1 + min (vocab_size - 1) (int (card (set words))) \<and>
           distinct (map fst dictionary) \<and> distinct (map fst index_dictionary) \<and>
           length dictionary = n \<and> length index_dictionary = n \<and>
           dict_getitem dictionary ''UNK'' = Inr 0 \<and>
           set (map snd dictionary) = {0..<int n} \<and>
           set (map fst index_dictionary) = {0..<int n} \<and>
           (\<forall>w i. dict_getitem dictionary w = Inr i \<longleftrightarrow> dict_getitem index_dictionary i = Inr w)"
proof -
  let ?ks = "vocab_keys words vocab_size"
  let ?n = "length ?ks"
  let ?d = "zip ?ks (indices ?n)"
  let ?r = "zip (indices ?n) ?ks"
  have bv: "build_vocab words vocab_size = (?d, ?r)"
    using assms(1) by (rule build_vocab_zip)
  have dk: "distinct ?ks" using assms(1) by (rule distinct_vocab_keys)
  have n: "int ?n = 1 + min (vocab_size - 1) (int (card (set words)))"
    using assms(2) unfolding length_vocab_keys by linarith
  have kd: "map fst ?d = ?ks" and vd: "map snd ?d = indices ?n"
    and kr: "map fst ?r = indices ?n"
    by (simp_all add: length_indices)
  have unk: "dict_getitem ?d ''UNK'' = Inr 0"
    by (simp add: vocab_keys_def indices_def dict_getitem_def upt_conv_Cons del: upt_Suc)
  have rng: "set (indices ?n) = {0..<int ?n}"
    by (simp add: indices_def image_int_atLeastLessThan)
  have inv: "\<forall>w i. dict_getitem ?d w = Inr i \<longleftrightarrow> dict_getitem ?r i = Inr w"
    using map_of_zip_inverse [OF dk distinct_indices, of ?n]
    by (simp add: dict_getitem_Inr length_indices)
  show ?thesis
  proof (intro exI conjI)
    show "build_vocab words vocab_size = (?d, ?r)" by (rule bv)
    show "int ?n = 1 + min (vocab_size - 1) (int (card (set words)))" by (rule n)
    show "distinct (map fst ?d)" by (simp only: kd dk)
    show "distinct (map fst ?r)" by (simp only: kr distinct_indices)
    show "length ?d = ?n" by (simp add: length_indices)
    show "length ?r = ?n" by (simp add: length_indices)
    show "dict_getitem ?d ''UNK'' = Inr 0" by (rule unk)
    show "set (map snd ?d) = {0..<int ?n}" by (simp only: vd rng)
    show "set (map fst ?r) = {0..<int ?n}" by (simp only: kr rng)
    show "\<forall>w i. dict_getitem ?d w = Inr i \<longleftrightarrow> dict_getitem ?r i = Inr w" by (rule inv)
  qed
qed

theorem build_vocab_mutual_inverses_witness:
  "''UNK'' \<notin> set nb_corpus \<and> (1::int) \<le> 100 \<and>
   (\<exists>dictionary index_dictionary.
      build_vocab nb_corpus 100 = (dictionary, index_dictionary) \<and>
      distinct (map fst dictionary) \<and> distinct (map fst index_dictionary) \<and>
      length dictionary = 11 \<and> length index_dictionary = 11 \<and>
      dict_getitem dictionary ''UNK'' = Inr 0 \<and>
      set (map snd dictionary) = {0..<11} \<and>
      set (map fst index_dictionary) = {0..<11} \<and>
      (\<forall>w i. dict_getitem dictionary w = Inr i \<longleftrightarrow> dict_getitem index_dictionary i = Inr w))"
proof -
  have h2: "(1::int) \<le> 100" by simp
  obtain dictionary index_dictionary n where
    r: "build_vocab nb_corpus 100 = (dictionary, index_dictionary)"
       "int n = 1 + min (100 - 1) (int (card (set nb_corpus)))"
       "distinct (map fst dictionary)" "distinct (map fst index_dictionary)"
       "length dictionary = n" "length index_dictionary = n"
       "dict_getitem dictionary ''UNK'' = Inr 0"
       "set (map snd dictionary) = {0..<int n}"
       "set (map fst index_dictionary) = {0..<int n}"
       "\<forall>w i. dict_getitem dictionary w = Inr i \<longleftrightarrow> dict_getitem index_dictionary i = Inr w"
    using build_vocab_mutual_inverses [OF nb_corpus_no_UNK h2] by blast
  from r(2) have n: "n = 11" by (simp add: nb_corpus_distinct_words)
  show ?thesis
    using nb_corpus_no_UNK r unfolding n
    by (intro conjI exI [of _ dictionary] exI [of _ index_dictionary]) simp_all
qed

lemma build_vocab_example:
  "build_vocab [''a'', ''b'', ''a''] 2 = ([(''UNK'', 0), (''a'', 1)], [(0, ''UNK''), (1, ''a'')])"
  by (simp add: build_vocab_def Counter_def most_common_def dict_get_def dict_of_pairs_def)






section \<open>Claims about the training array\<close>

lemma nb_data_rows: "\<exists>rows. nb_data = Inr rows \<and> length rows = 14"
  using training_array_rows [OF nb_corpus_no_UNK, of 100]
  unfolding nb_data_def by (auto simp: nb_corpus_words)

text \<open>
  C8. The cell \<open>data[randint(1, data.shape[0])]\<close> can fail. For an array of
  \<open>n \<ge> 1\<close> rows the possible draws are \<open>1, \<dots>, n\<close>: the draw \<open>n\<close> is among them
  and indexing with it raises \<open>IndexError\<close>, the draw 0 is not among them, and the
  outcomes of the cell are the rows at \<open>1, \<dots>, n - 1\<close> followed by the error. The
  notebook's array has 14 rows.
\<close>

theorem sample_row_index_error:
  assumes "rows \<noteq> []"
  shows "randint_draws 1 (int (length rows)) = Inr [1..int (length rows)] \<and>
         int (length rows) \<in> set [1..int (length rows)] \<and>
         0 \<notin> set [1..int (length rows)] \<and>
         sample_row rows (int (length rows)) = Inl IndexError \<and>
         sample_outcomes rows =
           Inr (map (\<lambda>r. Inr (rows ! nat r)) [1..int (length rows) - 1] @ [Inl IndexError])"
proof -
  let ?n = "int (length rows)"
  from assms have pos: "1 \<le> ?n" by (cases rows) simp_all
  have draws: "randint_draws 1 ?n = Inr [1..?n]"
    using assms by (simp add: randint_draws_def)
  have last: "sample_row rows ?n = Inl IndexError"
    using pos by (simp add: sample_row_def np_getitem_def)
  have inner: "map (sample_row rows) [1..?n - 1] = map (\<lambda>r. Inr (rows ! nat r)) [1..?n - 1]"
    by (rule map_cong) (auto simp: sample_row_def np_getitem_def)
  have "[1..?n] = [1..?n - 1] @ [?n]"
    using pos by (simp add: upto_rec2)
  then have outs: "map (sample_row rows) [1..?n] =
                   map (\<lambda>r. Inr (rows ! nat r)) [1..?n - 1] @ [Inl IndexError]"
    by (simp only: map_append inner list.map last)
  have all: "sample_outcomes rows =
               Inr (map (\<lambda>r. Inr (rows ! nat r)) [1..?n - 1] @ [Inl IndexError])"
    unfolding sample_outcomes_def draws by (simp only: sum.case outs)
  from draws pos last all assms show ?thesis by auto
qed

theorem sample_row_index_error_witness:
  "\<exists>rows. nb_data = Inr rows \<and> rows \<noteq> [] \<and> length rows = 14 \<and>
          randint_draws 1 14 = Inr [1..14] \<and>
          sample_row rows 14 = Inl IndexError \<and>
          sample_outcomes rows =
            Inr (map (\<lambda>r. Inr (rows ! nat r)) [1..13] @ [Inl IndexError])"
proof -
  obtain rows where r: "nb_data = Inr rows" "length rows = 14"
    using nb_data_rows by blast
  from r(2) have ne: "rows \<noteq> []" by auto
  from sample_row_index_error [OF ne] r ne show ?thesis
    by (intro exI [of _ rows]) simp
qed

section \<open>Properties of running the loss node\<close>

lemmas graph_defs =
  X_def w1_def b1_def layer1_def w2_def b2_def layer2_def w_code_def b_code_def code_def
  w3_def b3_def layer3_def w4_def b4_def layer4_def w5_def b5_def decoder_def

lemma stretch_same: "length xs = n \<Longrightarrow> stretch n xs = xs"
  by (cases xs) (auto simp: stretch_def)

lemma is_matrix_rows: "is_matrix m \<Longrightarrow> r \<in> set m \<Longrightarrow> length r = snd (shape m)"
  by (simp add: is_matrix_def list_all_iff)

lemma concat_map2:
  "length xs = length ys \<Longrightarrow> (\<And>r s. (r, s) \<in> set (zip xs ys) \<Longrightarrow> length r = length s) \<Longrightarrow>
   concat (map2 (map2 f) xs ys) = map2 f (concat xs) (concat ys)"
  by (induction xs ys rule: list_induct2) simp_all

lemma same_shape_length:
  "shape x = shape d \<Longrightarrow> length x = length d"
  by (simp add: shape_def)

lemma same_shape_rows:
  assumes "is_matrix x" and "is_matrix d" and "shape x = shape d" and "(r, s) \<in> set (zip x d)"
  shows "length r = length s"
proof -
  from assms(4) have "r \<in> set x" and "s \<in> set d"
    by (auto dest: set_zip_leftD set_zip_rightD)
  then have "length r = snd (shape x)" and "length s = snd (shape d)"
    using assms(1,2) by (blast intro: is_matrix_rows)+
  then show ?thesis by (simp only: assms(3))
qed

lemma elementwise_same_shape:
  assumes "is_matrix x" "is_matrix d" "shape x = shape d"
  shows "elementwise f (Matrix x) (Matrix d) = Some (Matrix (map2 (map2 f) x d))"
proof -
  have sx: "stretch (fst (shape d)) x = x"
    using same_shape_length[OF assms(3)] by (intro stretch_same) (simp add: shape_def)
  have sd: "stretch (fst (shape d)) d = d"
    by (rule stretch_same) (simp add: shape_def)
  have rx: "map (stretch (snd (shape d))) x = x"
    by (rule map_idI) (simp add: stretch_same is_matrix_rows[OF assms(1)] assms(3))
  have rd: "map (stretch (snd (shape d))) d = d"
    by (rule map_idI) (simp add: stretch_same is_matrix_rows[OF assms(2)])
  show ?thesis
    using assms by (simp add: elementwise_def broadcast_length_def sx sd rx rd)
qed

lemma run_loss_value:
  assumes "run env (X vs) = Some (Matrix x)" and "run env (decoder vs) = Some (Matrix d)"
    and "is_matrix x" and "is_matrix d" and "shape x = shape d" and "concat x \<noteq> []"
    and "env (Subtract (X vs) (decoder vs)) = None"
    and "env (Tf_pow (Subtract (X vs) (decoder vs)) 2) = None"
    and "env (loss vs) = None"
  shows "run env (loss vs) = Some (Scalar (mean_squared_difference x d))"
proof -
  have len: "length x = length d"
    and rows: "\<And>r s. (r, s) \<in> set (zip x d) \<Longrightarrow> length r = length s"
    using same_shape_length[OF assms(5)] same_shape_rows[OF assms(3,4,5)] by auto
  have sub: "run env (Subtract (X vs) (decoder vs)) = Some (Matrix (map2 (map2 (-)) x d))"
    by (simp add: assms(1,2,7) fetch_def elementwise_same_shape[OF assms(3,4,5)])
  have pw: "run env (Tf_pow (Subtract (X vs) (decoder vs)) 2) =
        Some (Matrix (map (map (\<lambda>a. a\<^sup>2)) (map2 (map2 (-)) x d)))"
    by (simp only: run.simps(8) sub assms(8) fetch_def option.case unary_def tval.case)
  have c1: "concat (map (map (\<lambda>a. a\<^sup>2)) (map2 (map2 (-)) x d)) =
            map2 (\<lambda>a b. (a - b)\<^sup>2) (concat x) (concat d)"
  proof -
    have eq: "map (map (\<lambda>a. a\<^sup>2)) (map2 (map2 (-)) x d) = map2 (map2 (\<lambda>a b. (a - b)\<^sup>2)) x d"
      by (simp add: case_prod_unfold o_def)
    show ?thesis
      by (simp only: eq concat_map2[OF len rows])
  qed
  have lc: "length (concat x) = length (concat d)"
    using len rows by (induction x d rule: list_induct2) auto
  have ne: "map2 (\<lambda>a b. (a - b)\<^sup>2) (concat x) (concat d) \<noteq> []"
    using assms(6) lc by (cases "concat x"; cases "concat d") simp_all
  have ln: "length (map2 (\<lambda>a b. (a - b)\<^sup>2) (concat x) (concat d)) = length (concat x)"
    using lc by simp
  show ?thesis
    unfolding loss_def
    by (simp only: run.simps(9) pw assms(9)[unfolded loss_def] fetch_def option.case
          reduce_mean_def tval.case c1 mean_squared_difference_def ne if_False ln)
qed

lemma msd_nonneg: "0 \<le> mean_squared_difference x d"
  by (auto simp: mean_squared_difference_def intro!: divide_nonneg_nonneg sum_list_nonneg)

lemma msd_zero_iff:
  assumes "is_matrix x" and "is_matrix d" and "shape x = shape d" and "concat x \<noteq> []"
  shows "mean_squared_difference x d = 0 \<longleftrightarrow> d = x"
proof -
  have len: "length x = length d"
    and rows: "\<And>r s. (r, s) \<in> set (zip x d) \<Longrightarrow> length r = length s"
    using same_shape_length[OF assms(3)] same_shape_rows[OF assms(1,2,3)] by auto
  have lc: "length (concat x) = length (concat d)"
    using len rows by (induction x d rule: list_induct2) auto
  have "mean_squared_difference x d = 0 \<longleftrightarrow> sum_list (map2 (\<lambda>a b. (a - b)\<^sup>2) (concat x) (concat d)) = 0"
    using assms(4) by (auto simp: mean_squared_difference_def)
  also have "\<dots> \<longleftrightarrow> (\<forall>e \<in> set (map2 (\<lambda>a b. (a - b)\<^sup>2) (concat x) (concat d)). e = 0)"
    by (rule sum_list_nonneg_eq_0_iff) auto
  also have "\<dots> \<longleftrightarrow> (\<forall>(a, b) \<in> set (zip (concat x) (concat d)). a = b)"
    by auto
  also have "\<dots> \<longleftrightarrow> concat x = concat d"
    using lc by (simp add: list_eq_iff_zip_eq)
  also have "\<dots> \<longleftrightarrow> x = d"
    using len rows by (intro concat_eq_concat_iff) auto
  finally show ?thesis by auto
qed

section \<open>Claims about the training objective\<close>

lemma one_hot_row_entries:
  assumes "0 \<le> i" and "i < int n" and "k < n"
  shows "length ((replicate n (0::32 word))[nat i := 1]) = n"
    and "(replicate n (0::32 word))[nat i := 1] ! k = (if int k = i then 1 else 0)"
  using assms by (auto simp: nth_list_update)

lemma as_float32_matrix:
  assumes "rows \<noteq> []" and "\<And>r. r \<in> set rows \<Longrightarrow> length r = n"
  shows "is_matrix (as_float32 rows)" and "shape (as_float32 rows) = (length rows, n)"
proof -
  obtain r rs where rows: "rows = r # rs" using assms(1) by (cases rows) auto
  show sh: "shape (as_float32 rows) = (length rows, n)"
    using assms(2) [of r] by (simp add: shape_def as_float32_def rows)
  show "is_matrix (as_float32 rows)"
    unfolding is_matrix_def sh using assms(2) by (simp add: list_all_iff as_float32_def)
qed

lemma training_array_example:
  "training_array [''a'', ''b'', ''a''] 2 = Inr [[0, 1], [1, 0], [0, 1]]"
  by (simp add: training_array_def build_vocab_example index_words_in_corpus_def
        dict_contains_def dict_getitem_def one_hot_encode_def np_setitem_def np_zeros_def)

text \<open>
  C1. The autoencoder is trained to reconstruct one-hot word vectors. For every word
  list without \<open>'UNK'\<close>, the training array has one row per word of the corpus, and
  the row of a word is the one-hot encoding of its index: its length is the size of
  the vocabulary, its entry at the index is 1 and every other entry is 0. When the
  array is fed to the placeholder \<open>X\<close> and \<open>decoder\<close> evaluates to a matrix \<open>d\<close> of
  the same shape, the node \<open>loss\<close> evaluates to the mean over all entries of the
  squared difference between the fed array and \<open>d\<close>; this value is never negative
  and is 0 exactly when \<open>d\<close> is the fed array, so minimising it drives the network to
  reproduce its one-hot input; and \<open>loss\<close> is the node that \<open>optimizer\<close> minimises.
\<close>

theorem training_rows_one_hot_and_loss:
  assumes "''UNK'' \<notin> set words" and "words \<noteq> []"
  shows "\<exists>vocabulary reverse_vocabulary corpus rows.
           build_vocab words vocab_size = (vocabulary, reverse_vocabulary) \<and>
           index_words_in_corpus vocabulary words = Inr corpus \<and>
           training_array words vocab_size = Inr rows \<and>
           length rows = length words \<and>
           (\<forall>j < length words.
              0 \<le> corpus ! j \<and> corpus ! j < int (length vocabulary) \<and>
              length (rows ! j) = length vocabulary \<and>
              (\<forall>k < length vocabulary. rows ! j ! k = (if int k = corpus ! j then 1 else 0))) \<and>
           (\<forall>env d.
              env (X (length vocabulary)) = Some (Matrix (as_float32 rows)) \<and>
              run env (decoder (length vocabulary)) = Some (Matrix d) \<and>
              is_matrix d \<and> shape d = (length words, length vocabulary) \<and>
              env (Subtract (X (length vocabulary)) (decoder (length vocabulary))) = None \<and>
              env (Tf_pow (Subtract (X (length vocabulary)) (decoder (length vocabulary))) 2) = None \<and>
              env (loss (length vocabulary)) = None \<longrightarrow>
              run env (loss (length vocabulary)) =
                Some (Scalar (mean_squared_difference (as_float32 rows) d)) \<and>
              0 \<le> mean_squared_difference (as_float32 rows) d \<and>
              (mean_squared_difference (as_float32 rows) d = 0 \<longleftrightarrow> d = as_float32 rows)) \<and>
           optimizer (length vocabulary) =
             Minimize (RMSPropOptimizer (1 / 100)) (loss (length vocabulary))"
proof -
  obtain vocabulary reverse_vocabulary corpus rows where
    bv: "build_vocab words vocab_size = (vocabulary, reverse_vocabulary)" and
    idx: "index_words_in_corpus vocabulary words = Inr corpus" and
    ta: "training_array words vocab_size = Inr rows" and
    lr: "length rows = length words" and
    row: "\<forall>j < length words.
            0 \<le> corpus ! j \<and> corpus ! j < int (length vocabulary) \<and>
            rows ! j = (replicate (length vocabulary) 0)[nat (corpus ! j) := 1]"
    using training_array_rows [OF assms(1), of vocab_size] by blast
  let ?n = "length vocabulary"
  let ?x = "as_float32 rows"
  have one_hot: "\<forall>j < length words.
              0 \<le> corpus ! j \<and> corpus ! j < int ?n \<and>
              length (rows ! j) = ?n \<and>
              (\<forall>k < ?n. rows ! j ! k = (if int k = corpus ! j then 1 else 0))"
    using row by (auto simp: one_hot_row_entries)
  have rows_ne: "rows \<noteq> []" using lr assms(2) by auto
  have row_len: "length r = ?n" if "r \<in> set rows" for r
  proof -
    from that obtain j where "j < length rows" "r = rows ! j" by (auto simp: in_set_conv_nth)
    with one_hot lr show ?thesis by simp
  qed
  have mx: "is_matrix ?x" and sx: "shape ?x = (length words, ?n)"
    using as_float32_matrix [OF rows_ne row_len] lr by simp_all
  have pos: "0 < ?n"
    using one_hot assms(2) by (cases words) (auto dest!: spec [of _ 0])
  have cx: "concat ?x \<noteq> []"
  proof -
    obtain r rs where "rows = r # rs" using rows_ne by (cases rows) auto
    moreover from this row_len [of r] pos have "r \<noteq> []" by auto
    ultimately show ?thesis by (simp add: as_float32_def)
  qed
  have obj: "run env (loss ?n) = Some (Scalar (mean_squared_difference ?x d)) \<and>
             0 \<le> mean_squared_difference ?x d \<and>
             (mean_squared_difference ?x d = 0 \<longleftrightarrow> d = ?x)"
    if fed: "env (X ?n) = Some (Matrix ?x)" and dec: "run env (decoder ?n) = Some (Matrix d)"
      and md: "is_matrix d" and sd: "shape d = (length words, ?n)"
      and n1: "env (Subtract (X ?n) (decoder ?n)) = None"
      and n2: "env (Tf_pow (Subtract (X ?n) (decoder ?n)) 2) = None"
      and n3: "env (loss ?n) = None"
    for env d
  proof -
    have rx: "run env (X ?n) = Some (Matrix ?x)"
      using fed by (simp add: X_def)
    have ss: "shape ?x = shape d" by (simp only: sx sd)
    show ?thesis
      using run_loss_value [OF rx dec mx md ss cx n1 n2 n3]
            msd_nonneg [of ?x d] msd_zero_iff [OF mx md ss cx]
      by simp
  qed
  have opt: "optimizer ?n = Minimize (RMSPropOptimizer (1 / 100)) (loss ?n)"
    by (simp add: optimizer_def LEARNING_RATE_def)
  show ?thesis
    using bv idx ta lr one_hot obj opt by blast
qed


theorem training_rows_one_hot_and_loss_witness:
  "''UNK'' \<notin> set nb_corpus \<and> nb_corpus \<noteq> [] \<and>
   (\<exists>rows. nb_data = Inr rows \<and> length rows = 14 \<and>
      list_all (\<lambda>row. length row = 11) rows \<and>
      run ((\<lambda>t. None)
             (X 11 := Some (Matrix (as_float32 rows)),
              decoder 11 := Some (Matrix (as_float32 rows))))
          (loss 11) = Some (Scalar 0))"
proof -
  have h2: "nb_corpus \<noteq> []" by (simp add: nb_corpus_words)
  obtain vocabulary reverse_vocabulary corpus rows where
    bv: "build_vocab nb_corpus 100 = (vocabulary, reverse_vocabulary)" and
    ta: "training_array nb_corpus 100 = Inr rows" and
    lr: "length rows = length nb_corpus" and
    one_hot: "\<forall>j < length nb_corpus.
              0 \<le> corpus ! j \<and> corpus ! j < int (length vocabulary) \<and>
              length (rows ! j) = length vocabulary \<and>
              (\<forall>k < length vocabulary. rows ! j ! k = (if int k = corpus ! j then 1 else 0))" and
    obj: "\<forall>env d.
              env (X (length vocabulary)) = Some (Matrix (as_float32 rows)) \<and>
              run env (decoder (length vocabulary)) = Some (Matrix d) \<and>
              is_matrix d \<and> shape d = (length nb_corpus, length vocabulary) \<and>
              env (Subtract (X (length vocabulary)) (decoder (length vocabulary))) = None \<and>
              env (Tf_pow (Subtract (X (length vocabulary)) (decoder (length vocabulary))) 2) = None \<and>
              env (loss (length vocabulary)) = None \<longrightarrow>
              run env (loss (length vocabulary)) =
                Some (Scalar (mean_squared_difference (as_float32 rows) d)) \<and>
              0 \<le> mean_squared_difference (as_float32 rows) d \<and>
              (mean_squared_difference (as_float32 rows) d = 0 \<longleftrightarrow> d = as_float32 rows)"
    using training_rows_one_hot_and_loss [OF nb_corpus_no_UNK h2, of 100] by blast
  let ?env = "(\<lambda>t. None)
             (X 11 := Some (Matrix (as_float32 rows)),
              decoder 11 := Some (Matrix (as_float32 rows)))"
  have n: "length vocabulary = 11" using bv by (rule nb_vocabulary_size)
  have l14: "length rows = 14" using lr by (simp add: nb_corpus_length)
  have rl: "length r = 11" if "r \<in> set rows" for r
  proof -
    from that obtain j where "j < length rows" "r = rows ! j" by (auto simp: in_set_conv_nth)
    with one_hot lr n show ?thesis by simp
  qed
  have ne: "rows \<noteq> []" using l14 by auto
  have mx: "is_matrix (as_float32 rows)" and sx: "shape (as_float32 rows) = (14, 11)"
    using as_float32_matrix [OF ne rl] l14 by simp_all
  have fedX: "?env (X 11) = Some (Matrix (as_float32 rows))"
    by (simp add: graph_defs)
  have dec: "run ?env (decoder 11) = Some (Matrix (as_float32 rows))"
    by (simp add: graph_defs fetch_def)
  have nf: "?env (Subtract (X 11) (decoder 11)) = None"
           "?env (Tf_pow (Subtract (X 11) (decoder 11)) 2) = None"
           "?env (loss 11) = None"
    by (simp_all add: graph_defs loss_def)
  have "run ?env (loss 11) = Some (Scalar (mean_squared_difference (as_float32 rows) (as_float32 rows)))
        \<and> mean_squared_difference (as_float32 rows) (as_float32 rows) = 0"
    using obj [rule_format, of ?env "as_float32 rows"] fedX dec mx sx nf
    unfolding n nb_corpus_length by blast
  then have "run ?env (loss 11) = Some (Scalar 0)" by simp
  moreover have "list_all (\<lambda>row. length row = 11) rows"
    using rl by (simp add: list_all_iff)
  ultimately show ?thesis
    using nb_corpus_no_UNK h2 ta l14 unfolding nb_data_def by blast
qed

section \<open>Claims about the computation graph\<close>

text \<open>
  C2, as stated: the path from the placeholder \<open>X\<close> to \<open>decoder\<close> applies
  matmul-plus-bias with an activation exactly five times. It does not: there are six
  layers, the unnumbered \<open>code\<close> layer between \<open>layer2\<close> and \<open>layer3\<close> included.
\<close>

theorem decoder_five_layers_counterexample:
  "dense_layers (decoder 11) \<noteq> 5"
  by (simp add: graph_defs)

text \<open>
  C2, amended: for every vocabulary size the path from \<open>X\<close> to \<open>decoder\<close> has
  exactly six matmul-plus-bias layers: \<open>layer1\<close>, \<open>layer2\<close>, \<open>code\<close>, \<open>layer3\<close>
  and \<open>layer4\<close> with \<open>relu\<close>, then \<open>decoder\<close> with \<open>sigmoid\<close>. Their weights are
  \<open>w1, w2, w, w3, w4, w5\<close> and their biases \<open>b1, b2, b, b3, b4, b5\<close>, in this order;
  the weights are drawn with standard deviation 0.01 and the biases start at zero;
  the widths are
  \<open>vocabulary_size \<rightarrow> 1000 \<rightarrow> 250 \<rightarrow> 50 \<rightarrow> 250 \<rightarrow> 1000 \<rightarrow> vocabulary_size\<close>. The path
  starts at the placeholder \<open>X\<close>, and these six are all the matrix products of the
  graph.
\<close>

theorem decoder_six_layers:
  "dense_layers (decoder vocabulary_size) = 6 \<and>
   matmuls (decoder vocabulary_size) = 6 \<and>
   path_input (decoder vocabulary_size) = X vocabulary_size \<and>
   path_input (decoder vocabulary_size) =
     Placeholder Float32 [None, Some vocabulary_size] ''Placeholder'' \<and>
   path_weights (decoder vocabulary_size) =
     [w1 vocabulary_size, w2, w_code, w3, w4, w5 vocabulary_size] \<and>
   layer_list (decoder vocabulary_size) =
     [(''relu'', w1 vocabulary_size, b1), (''relu'', w2, b2), (''relu'', w_code, b_code),
      (''relu'', w3, b3), (''relu'', w4, b4),
      (''sigmoid'', w5 vocabulary_size, b5 vocabulary_size)] \<and>
   layer_list (decoder vocabulary_size) =
     [(''relu'', Variable (Random_normal [vocabulary_size, 1000] (1 / 100)) ''weights1'',
       Variable (Zeros [1, 1000]) ''bias1''),
      (''relu'', Variable (Random_normal [1000, 250] (1 / 100)) ''weights2'',
       Variable (Zeros [1, 250]) ''bias2''),
      (''relu'', Variable (Random_normal [250, 50] (1 / 100)) ''weights'',
       Variable (Zeros [1, 50]) ''bias''),
      (''relu'', Variable (Random_normal [50, 250] (1 / 100)) ''weights3'',
       Variable (Zeros [1, 250]) ''bias3''),
      (''relu'', Variable (Random_normal [250, 1000] (1 / 100)) ''weights4'',
       Variable (Zeros [1, 1000]) ''bias4''),
      (''sigmoid'', Variable (Random_normal [1000, vocabulary_size] (1 / 100)) ''weights5'',
       Variable (Zeros [1, vocabulary_size]) ''bias5'')] \<and>
   decoder vocabulary_size =
     Sigmoid (Add (Matmul
       (Relu (Add (Matmul
         (Relu (Add (Matmul
           (Relu (Add (Matmul
             (Relu (Add (Matmul
               (Relu (Add (Matmul (X vocabulary_size) (w1 vocabulary_size)) b1))
               w2) b2))
             w_code) b_code))
           w3) b3))
         w4) b4))
       (w5 vocabulary_size)) (b5 vocabulary_size))"
proof -
  have whole: "decoder vocabulary_size =
     Sigmoid (Add (Matmul
       (Relu (Add (Matmul
         (Relu (Add (Matmul
           (Relu (Add (Matmul
             (Relu (Add (Matmul
               (Relu (Add (Matmul (X vocabulary_size) (w1 vocabulary_size)) b1))
               w2) b2))
             w_code) b_code))
           w3) b3))
         w4) b4))
       (w5 vocabulary_size)) (b5 vocabulary_size))"
    by (simp add: decoder_def layer4_def layer3_def code_def layer2_def layer1_def)
  have input: "path_input (X vocabulary_size) = X vocabulary_size"
              "layer_list (X vocabulary_size) = []"
              "path_weights (X vocabulary_size) = []"
              "dense_layers (X vocabulary_size) = 0"
              "matmuls (X vocabulary_size) = 0"
    by (simp_all add: X_def)
  have leaves: "matmuls (w1 vocabulary_size) = 0" "matmuls b1 = 0" "matmuls w2 = 0"
    "matmuls b2 = 0" "matmuls w_code = 0" "matmuls b_code = 0" "matmuls w3 = 0"
    "matmuls b3 = 0" "matmuls w4 = 0" "matmuls b4 = 0" "matmuls (w5 vocabulary_size) = 0"
    "matmuls (b5 vocabulary_size) = 0"
    by (simp_all add: graph_defs)
  have counted:
    "dense_layers (decoder vocabulary_size) = 6"
    "matmuls (decoder vocabulary_size) = 6"
    "path_input (decoder vocabulary_size) = X vocabulary_size"
    "path_weights (decoder vocabulary_size) =
       [w1 vocabulary_size, w2, w_code, w3, w4, w5 vocabulary_size]"
    "layer_list (decoder vocabulary_size) =
       [(''relu'', w1 vocabulary_size, b1), (''relu'', w2, b2), (''relu'', w_code, b_code),
        (''relu'', w3, b3), (''relu'', w4, b4),
        (''sigmoid'', w5 vocabulary_size, b5 vocabulary_size)]"
    unfolding whole by (simp_all add: input leaves)
  have explicit:
    "path_input (decoder vocabulary_size) =
       Placeholder Float32 [None, Some vocabulary_size] ''Placeholder''"
    "layer_list (decoder vocabulary_size) =
     [(''relu'', Variable (Random_normal [vocabulary_size, 1000] (1 / 100)) ''weights1'',
       Variable (Zeros [1, 1000]) ''bias1''),
      (''relu'', Variable (Random_normal [1000, 250] (1 / 100)) ''weights2'',
       Variable (Zeros [1, 250]) ''bias2''),
      (''relu'', Variable (Random_normal [250, 50] (1 / 100)) ''weights'',
       Variable (Zeros [1, 50]) ''bias''),
      (''relu'', Variable (Random_normal [50, 250] (1 / 100)) ''weights3'',
       Variable (Zeros [1, 250]) ''bias3''),
      (''relu'', Variable (Random_normal [250, 1000] (1 / 100)) ''weights4'',
       Variable (Zeros [1, 1000]) ''bias4''),
      (''sigmoid'', Variable (Random_normal [1000, vocabulary_size] (1 / 100)) ''weights5'',
       Variable (Zeros [1, vocabulary_size]) ''bias5'')]"
    by (simp_all add: graph_defs)
  from whole counted explicit show ?thesis by (intro conjI) assumption+
qed

section \<open>Claims about the training loop\<close>

lemma train_step_at:
  "train_step sess vs data (vars_after sess vs data n, w) (int n) =
     (vars_after sess vs data (Suc n),
      if n mod 10 = 0 then w\<lparr>stdout := stdout w @ reports sess vs data [n]\<rparr> else w)"
proof -
  have m: "int n mod SKIP_STEP = 0 \<longleftrightarrow> n mod 10 = 0"
    unfolding SKIP_STEP_def by presburger
  show ?thesis
    by (simp add: train_step_def step_of_def [symmetric] m print_def reports_def
          NUM_TRAIN_STEPS_def vars_after_def split: prod.splits)
qed

lemma train_loop:
  "foldl (train_step sess vs data) (run_init sess init, w0) (map int [0..<n]) =
     (vars_after sess vs data n,
      w0\<lparr>stdout := stdout w0 @ reports sess vs data (filter (\<lambda>i. i mod 10 = 0) [0..<n])\<rparr>)"
proof (induction n)
  case 0
  show ?case by (simp add: vars_after_def reports_def)
next
  case (Suc n)
  have "foldl (train_step sess vs data) (run_init sess init, w0) (map int [0..<Suc n]) =
        train_step sess vs data
          (foldl (train_step sess vs data) (run_init sess init, w0) (map int [0..<n])) (int n)"
    by simp
  also have "\<dots> = train_step sess vs data
          (vars_after sess vs data n,
           w0\<lparr>stdout := stdout w0 @ reports sess vs data (filter (\<lambda>i. i mod 10 = 0) [0..<n])\<rparr>)
          (int n)"
    by (simp only: Suc)
  also have "\<dots> = (vars_after sess vs data (Suc n),
      w0\<lparr>stdout := stdout w0 @ reports sess vs data (filter (\<lambda>i. i mod 10 = 0) [0..<Suc n])\<rparr>)"
    by (simp add: train_step_at reports_def)
  finally show ?case .
qed

lemma multiples_of_ten: "filter (\<lambda>i. i mod 10 = 0) [0..<10 * m] = map (\<lambda>j. 10 * j) [0..<m]"
proof (induction m)
  case 0
  show ?case by simp
next
  case (Suc m)
  have "[0..<10 * m + 10] = [0..<10 * m] @ [10 * m..<10 * m + 10]"
    by (rule upt_add_eq_append) simp
  also have "[10 * m..<10 * m + 10] = map (\<lambda>j. j + 10 * m) [0..<10]"
    by (simp only: map_add_upt add.commute)
  also have "[0..<10] = [0, 1, 2, 3, 4, 5, 6, 7, 8, 9::nat]"
    by (simp add: upt_rec)
  finally have "[0..<10 * Suc m] = [0..<10 * m] @ map (\<lambda>j. j + 10 * m) [0, 1, 2, 3, 4, 5, 6, 7, 8, 9]"
    by (simp add: add.commute)
  moreover have "filter (\<lambda>i. i mod 10 = 0) (map (\<lambda>j. j + 10 * m) [0, 1, 2, 3, 4, 5, 6, 7, 8, 9]) = [10 * m]"
    unfolding filter_map o_def mod_mult_self2 by simp
  ultimately show ?case
    using Suc by (simp only: filter_append upt_Suc_append map_append list.map le0 if_True)
qed

lemma report_steps: "filter (\<lambda>i. i mod 10 = 0) [0..<1000] = map (\<lambda>j. 10 * j) [0..<100]"
  using multiples_of_ten [of 100] by simp

text \<open>
  C7. The training loop runs exactly \<open>NUM_TRAIN_STEPS = 1000\<close> optimisation steps:
  the variables the session ends with are those after 1000 steps. It prints the loss
  exactly at the steps \<open>i < 1000\<close> with \<open>i mod SKIP_STEP = 0\<close>, that is at
  \<open>0, 10, \<dots>, 990\<close>, 100 lines in all, and the line of step \<open>i\<close> reports the loss
  returned by the session run of step \<open>i\<close>.
\<close>

theorem training_session_reports:
  "training_session sess vs data test_data w0 =
     ((vars_after sess vs data 1000,
       run_fetch sess (decoder vs) [(X vs, test_data)] (vars_after sess vs data 1000)),
      w0\<lparr>stdout := stdout w0 @ reports sess vs data (map (\<lambda>j. 10 * j) [0..<100])\<rparr>) \<and>
   length (reports sess vs data (map (\<lambda>j. 10 * j) [0..<100])) = 100 \<and>
   set (map (\<lambda>j. 10 * j) [0..<100]) = {i. i < 1000 \<and> i mod 10 = 0}"
proof -
  have "set (map (\<lambda>j. 10 * j) [0..<100::nat]) = set (filter (\<lambda>i. i mod 10 = 0) [0..<1000])"
    by (simp only: report_steps)
  also have "\<dots> = {i. i < 1000 \<and> i mod 10 = 0}" by auto
  finally have s: "set (map (\<lambda>j. 10 * j) [0..<100::nat]) = {i. i < 1000 \<and> i mod 10 = 0}" .
  have "training_session sess vs data test_data w0 =
     ((vars_after sess vs data 1000,
       run_fetch sess (decoder vs) [(X vs, test_data)] (vars_after sess vs data 1000)),
      w0\<lparr>stdout := stdout w0 @ reports sess vs data (map (\<lambda>j. 10 * j) [0..<100])\<rparr>)"
    unfolding training_session_def py_range_def NUM_TRAIN_STEPS_def
    by (simp add: train_loop report_steps del: upt_Suc)
  with s show ?thesis by (simp add: reports_def)
qed

lemma vars_after_counting: "vars_after counting_session vs data i = i"
  by (induction i) (simp_all add: vars_after_def step_of_def counting_session_def)

theorem training_session_reports_witness:
  "training_session counting_session 11 [] [] \<lparr>stdout = [], files = {}\<rparr> =
     ((1000, 1000),
      \<lparr>stdout = map (\<lambda>j. Epoch_line (int (10 * j)) 1000 (10 * j)) [0..<100], files = {}\<rparr>)"
  using training_session_reports [of counting_session 11 "[]" "[]" "\<lparr>stdout = [], files = {}\<rparr>"]
  by (simp add: vars_after_counting reports_def step_of_def o_def)
     (simp add: counting_session_def)

section \<open>Claims about the CIFAR-10 notebook\<close>

lemma fit_evaluate_fields:
  "fit_evaluate K b g =
     g\<lparr>model := (model g)\<lparr>weights := fst (fit K (layers (model g)) (compiled (model g)) (weights (model g))
             (X_train g) (y_train g) (X_test g, y_test g) (epochs g) b (numpy_random g))\<rparr>,
       numpy_random := snd (fit K (layers (model g)) (compiled (model g)) (weights (model g))
             (X_train g) (y_train g) (X_test g, y_test g) (epochs g) b (numpy_random g)),
       scores := evaluate K (layers (model g)) (compiled (model g))
            (fst (fit K (layers (model g)) (compiled (model g)) (weights (model g))
             (X_train g) (y_train g) (X_test g, y_test g) (epochs g) b (numpy_random g)))
            (X_test g) (y_test g),
       world := print (Accuracy_line (snd (evaluate K (layers (model g)) (compiled (model g))
            (fst (fit K (layers (model g)) (compiled (model g)) (weights (model g))
             (X_train g) (y_train g) (X_test g, y_test g) (epochs g) b (numpy_random g)))
            (X_test g) (y_test g))))
          (library_calls K [''model.evaluate'']
             (print (Fit_progress (epochs g) b) (library_calls K [''model.fit''] (world g))))\<rparr>"
  by (simp add: fit_evaluate_def Let_def split: prod.splits)

lemma stdout_library_calls: "stdout (library_calls K statements w) = stdout w"
  by (simp add: library_calls_def)

lemma files_library_calls:
  "files (library_calls K statements w) =
     foldl (\<lambda>fs statement. fs_effect K statement fs) (files w) statements"
  by (simp add: library_calls_def)

lemma stdout_print: "stdout (print x w) = stdout w @ [x]"
  by (simp add: print_def)

lemma files_print: "files (print x w) = files w"
  by (simp add: print_def)




lemmas cifar_simps =
  cifar_notebook_def plot_imports_cell_def model_imports_cell_def load_cell_def seed_cell_def
  normalize_cell_def one_hot_cell_def simple_model_cell_def fit_cell_def larger_model_cell_def
  larger_fit_cell_def fit_evaluate_fields prepared_def adagrad_args_def stdout_library_calls
  stdout_print files_library_calls files_print

text \<open>
  C9. Both models of the CIFAR-10 notebook are compiled with the optimiser name
  \<open>'adagrad'\<close>. The \<open>SGD\<close> object built just before each \<open>compile\<close> (learning rate
  0.01, momentum 0.9, decay \<open>lrate/epochs\<close>) is bound to \<open>sgd\<close> and goes nowhere
  else: the cells that fit and evaluate do the same whatever \<open>sgd\<close> holds.
\<close>

theorem adagrad_compiled_sgd_unused:
  "compile_optimizer (compiled (model (simple_model_cell K g))) = Optimizer_name ''adagrad'' \<and>
   compile_optimizer (compiled (model (larger_model_cell K g))) = Optimizer_name ''adagrad'' \<and>
   sgd (simple_model_cell K g) = SGD (1 / 100) (9 / 10) ((1 / 100) / 10) False \<and>
   sgd (larger_model_cell K g) = SGD (1 / 100) (9 / 10) ((1 / 100) / 10) False \<and>
   (\<forall>s. fit_cell K (g\<lparr>sgd := s\<rparr>) = (fit_cell K g)\<lparr>sgd := s\<rparr>) \<and>
   (\<forall>s. larger_fit_cell K (g\<lparr>sgd := s\<rparr>) = (larger_fit_cell K g)\<lparr>sgd := s\<rparr>)"
  by (simp add: simple_model_cell_def larger_model_cell_def fit_cell_def larger_fit_cell_def
        fit_evaluate_fields Let_def split: prod.splits)


text \<open>
  The stages of both notebooks in the order load, build, train, evaluate, print. In
  the CIFAR-10 notebook the lines printed are, for each model in turn, its summary,
  the progress of \<open>fit\<close> and the accuracy; the accuracy printed is the second score
  of \<open>evaluate\<close> on the test arrays with the weights that \<open>fit\<close> returns, and
  \<open>fit\<close> starts from the weights of the model built from the loaded arrays. In the
  autoencoder's session the evaluation fetches \<open>decoder\<close> with the variables that
  the 1000 training steps leave.
\<close>

lemma notebooks_pipeline_order:
  "(case prepared K of
      ((xtr, ytr), (xte, yte)) \<Rightarrow>
        (case build K (simple_layers (shape_1 K yte)) (random_seed K 7) of
           (wa, ra) \<Rightarrow>
             (case fit K (simple_layers (shape_1 K yte)) adagrad_args wa xtr ytr (xte, yte) 10 32 ra of
                (wb, rb) \<Rightarrow>
                  (case build K (larger_layers (shape_1 K yte)) rb of
                     (wc, rc) \<Rightarrow>
                       (case fit K (larger_layers (shape_1 K yte)) adagrad_args wc xtr ytr (xte, yte)
                               10 64 (random_seed K 7) of
                          (wd, rd) \<Rightarrow>
                            stdout (world (cifar_notebook K g0)) =
                              stdout (world g0) @
                                [Summary_table (simple_layers (shape_1 K yte)), None_line,
                                 Fit_progress 10 32,
                                 Accuracy_line
                                   (snd (evaluate K (simple_layers (shape_1 K yte)) adagrad_args wb xte yte)),
                                 Summary_table (larger_layers (shape_1 K yte)), None_line,
                                 Fit_progress 10 64,
                                 Accuracy_line
                                   (snd (evaluate K (larger_layers (shape_1 K yte)) adagrad_args wd xte yte))] \<and>
                            scores (cifar_notebook K g0) =
                              evaluate K (larger_layers (shape_1 K yte)) adagrad_args wd xte yte \<and>
                            model (cifar_notebook K g0) =
                              \<lparr>layers = larger_layers (shape_1 K yte), compiled = adagrad_args,
                               weights = wd\<rparr>))))) \<and>
   fst (training_session sess vs data test_data w0) =
     (vars_after sess vs data 1000,
      run_fetch sess (decoder vs) [(X vs, test_data)] (vars_after sess vs data 1000))"
proof -
  have "fst (training_session sess vs data test_data w0) =
     (vars_after sess vs data 1000,
      run_fetch sess (decoder vs) [(X vs, test_data)] (vars_after sess vs data 1000))"
    unfolding training_session_def py_range_def NUM_TRAIN_STEPS_def
    by (simp add: train_loop del: upt_Suc)
  then show ?thesis
    by (simp add: cifar_simps Let_def split_beta)
qed





section \<open>Claims about the order of the cells\<close>

lemmas autoencoder_cell_defs =
  imports_cell_def corpus_cell_def vocabulary_cells_def data_cells_def graph_cells_def
  optimizer_cell_def constants_cell_def session_cell_def inspection_cells_def

lemma autoencoder_constants_first_runs:
  "\<exists>bound. run_all autoencoder_cells_constants_first = Inr bound \<and>
           ''test_data_compressed'' \<in> set bound"
  by (simp add: run_all_def autoencoder_cells_constants_first_def autoencoder_cell_defs)

lemma cifar_run_all_runs:
  "\<exists>bound. run_all cifar_cells = Inr bound \<and> ''scores'' \<in> set bound"
  by (simp add: run_all_def cifar_cells_def cifar_load_stmts_def cifar_compile_stmts_def
        cifar_fit_stmts_def)

text \<open>
  C6. Each notebook is a linear script that runs load data, build model, train,
  evaluate, print in this order. The CIFAR-10 notebook is (its cells run from top
  to bottom, and \<open>notebooks_pipeline_order\<close> gives the order of its stages). The
  autoencoder notebook run from top to bottom on a new kernel is not: the cell that
  builds \<open>optimizer\<close> raises \<open>NameError\<close> for \<open>LEARNING_RATE\<close>, which the next cell
  assigns, so the run stops before the training session.
\<close>

theorem autoencoder_run_all_name_error:
  "run_all autoencoder_cells = Inl (NameError ''LEARNING_RATE'')"
  by (simp add: run_all_def autoencoder_cells_def autoencoder_cell_defs)

end
